theory Spec2Isabelle
  imports Complex_Main "HOL-Library.Multiset"
begin

section \<open>bidsSynB0: data model\<close>

text \<open>
  A shallow embedding of \<^verbatim>\<open>scripts/bidsSynB0.py\<close>. Values loaded by \<^verbatim>\<open>json.load\<close>
  are a datatype; a sidecar (a JSON object, a Python dict) is a map from keys to values.
  \<^verbatim>\<open>JNull\<close> is Python's \<^verbatim>\<open>None\<close>. Python's \<^verbatim>\<open>==\<close> on loaded values is
  structural equality here, which is what Python does on strings, the values that the
  field \<^verbatim>\<open>PhaseEncodingDirection\<close> takes.
\<close>

datatype json =
    JNull
  | JBool bool
  | JNum rat
  | JStr string
  | JArr "json list"
  | JObj "(string \<times> json) list"

type_synonym sidecar = "string \<rightharpoonup> json"

text \<open>Every exception the script can raise; \<^verbatim>\<open>sys.exit(n)\<close> is \<open>SystemExit n\<close>.\<close>

datatype py_error =
    KeyError string
  | IndexError
  | NameError string
  | TypeError
  | ValueError
  | AttributeError
  | FileNotFoundError string
  | SameFileError
  | JSONDecodeError
  | RuntimeError string
  | Exception string
  | SystemExit nat

text \<open>
  A \<^verbatim>\<open>BIDSFile\<close> as the dataset index returns it: its path, its file name and the
  dict of \<^verbatim>\<open>get_entities()\<close>, whose values are strings or \<^verbatim>\<open>None\<close>.
\<close>

record bidsfile =
  path :: string
  filename :: string
  entities :: "string \<rightharpoonup> string option"

type_synonym groups = "(string \<times> bidsfile list) list"

section \<open>String and path helpers of the Python library\<close>

text \<open>\<^verbatim>\<open>s.endswith(t)\<close>\<close>

definition endswith :: "string \<Rightarrow> string \<Rightarrow> bool" where
  "endswith s t = (length t \<le> length s \<and> drop (length s - length t) s = t)"

text \<open>
  \<^verbatim>\<open>s.replace(old, new)\<close> for a non-empty \<open>old\<close> (the script only replaces
  \<^verbatim>\<open>'.nii.gz'\<close> and \<^verbatim>\<open>'.json'\<close>): every non-overlapping occurrence, left to right.
\<close>

function str_replace :: "string \<Rightarrow> string \<Rightarrow> string \<Rightarrow> string" where
  "str_replace old new [] = []"
| "str_replace old new (c # cs) =
     (if old \<noteq> [] \<and> take (length old) (c # cs) = old
      then new @ str_replace old new (drop (length old) (c # cs))
      else c # str_replace old new cs)"
  by pat_completeness auto
termination
  by (relation "measure (\<lambda>(old, new, s). length s)") auto

text \<open>\<^verbatim>\<open>os.path.join\<close> of posixpath: an absolute component discards what came before.\<close>

definition path_join2 :: "string \<Rightarrow> string \<Rightarrow> string" where
  "path_join2 a b =
     (if b \<noteq> [] \<and> hd b = CHR ''/'' then b
      else if a = [] \<or> last a = CHR ''/'' then a @ b
      else a @ ''/'' @ b)"

definition os_path_join :: "string \<Rightarrow> string list \<Rightarrow> string" where
  "os_path_join a ps = foldl path_join2 a ps"

text \<open>\<^verbatim>\<open>os.path.basename\<close>: what follows the last slash.\<close>

definition basename :: "string \<Rightarrow> string" where
  "basename p = rev (takeWhile (\<lambda>c. c \<noteq> CHR ''/'') (rev p))"

section \<open>Acquisition grouping\<close>

text \<open>
  \<^verbatim>\<open>grouped_images\<close> is a dict, iterated later in insertion order: an association list
  with distinct keys, a new key appended at the end.
\<close>

definition group_append :: "groups \<Rightarrow> string \<Rightarrow> bidsfile \<Rightarrow> groups" where
  "group_append grouped_images acq_label file =
     (let g = (if acq_label \<notin> set (map fst grouped_images)
               then grouped_images @ [(acq_label, [])] else grouped_images)
      in map (\<lambda>(k, fs). if k = acq_label then (k, fs @ [file]) else (k, fs)) g)"

text \<open>
  The loop of \<^verbatim>\<open>get_dwi_images\<close>. \<^verbatim>\<open>file.get_entities()['acquisition']\<close> raises
  \<^verbatim>\<open>KeyError\<close> when the dict has no such key; \<^verbatim>\<open>not acq_label\<close> holds for
  \<^verbatim>\<open>None\<close> and for the empty string.
\<close>

fun group_loop :: "bidsfile list \<Rightarrow> groups \<Rightarrow> py_error + groups" where
  "group_loop [] grouped_images = Inr grouped_images"
| "group_loop (file # rest) grouped_images =
     (case entities file ''acquisition'' of
        None \<Rightarrow> Inl (KeyError ''acquisition'')
      | Some v \<Rightarrow>
          (let acq_label = (case v of None \<Rightarrow> ''noacq''
                            | Some l \<Rightarrow> if l = [] then ''noacq'' else l)
           in group_loop rest (group_append grouped_images acq_label file)))"

text \<open>
  \<^verbatim>\<open>get_dwi_images\<close>: \<open>dwi_images\<close> is what \<^verbatim>\<open>layout.get\<close> returned for the subject,
  the session and the filter.
\<close>

definition get_dwi_images :: "bidsfile list \<Rightarrow> py_error + groups" where
  "get_dwi_images dwi_images = group_loop dwi_images []"

text \<open>The key under which an image is filed, when its entities have the key at all.\<close>

definition acq_key :: "bidsfile \<Rightarrow> string option" where
  "acq_key file =
     (case entities file ''acquisition'' of
        None \<Rightarrow> None
      | Some None \<Rightarrow> Some ''noacq''
      | Some (Some l) \<Rightarrow> Some (if l = [] then ''noacq'' else l))"

text \<open>
  Lines 150 to 153: \<^verbatim>\<open>{'combined': [item for sublist in dwi_groups.values() for item in sublist]}\<close>
\<close>

definition combine_all :: "groups \<Rightarrow> groups" where
  "combine_all dwi_groups = [(''combined'', concat (map snd dwi_groups))]"

section \<open>Files, processes and the state of a run\<close>

text \<open>
  A file holds a JSON object or anything else (an image volume, a text, nothing at all
  after \<^verbatim>\<open>open(f, 'w')\<close>); \<^verbatim>\<open>json.load\<close> fails on the latter. Directories are not
  part of the model: \<^verbatim>\<open>os.makedirs\<close> is taken to succeed.
\<close>

datatype content = JsonFile sidecar | Other string

datatype call =
    Fslroi string string
  | Fslmaths string string string
  | Singularity "string list"

text \<open>
  The state a run threads through: the file system, what was printed, the external
  processes started so far, and the script's global \<^verbatim>\<open>fmap_sidecar\<close>, which is
  unbound (\<open>None\<close>) until a first group has reached line 360. The handle
  \<^verbatim>\<open>fmap_sidecar_fh\<close> is bound at the same places and is closed whenever a later
  iteration can read it.
\<close>

record world =
  files :: "string \<rightharpoonup> content"
  stdout :: "string list"
  calls :: "call list"
  fmap_sidecar_var :: "sidecar option"

text \<open>
  What the script takes from outside: the dataset index, directory listings, the temporary
  directory's name, and what each external tool leaves at its output path (\<open>None\<close>:
  it writes nothing; the script never reads an exit status).
\<close>

record env =
  layout_dwi :: "string \<Rightarrow> string \<Rightarrow> bidsfile list"
  layout_t1w :: "string \<Rightarrow> string \<Rightarrow> string list"
  listdir :: "string \<Rightarrow> string list option"
  mkdtemp :: "string \<Rightarrow> string"
  realpath :: "string \<Rightarrow> string"
  which_singularity :: bool
  py_str :: "json \<Rightarrow> string"
  str_groups :: "groups \<Rightarrow> string"
  fslroi_out :: "(string \<rightharpoonup> content) \<Rightarrow> string \<Rightarrow> content option"
  fslmaths_out :: "(string \<rightharpoonup> content) \<Rightarrow> string \<Rightarrow> string \<Rightarrow> content option"
  synb0_out :: "(string \<rightharpoonup> content) \<Rightarrow> string list \<Rightarrow> content option"

text \<open>The parsed command line (\<^verbatim>\<open>args\<close>).\<close>

record args =
  container :: string
  bids_dataset :: string
  participant_label :: string
  session_label :: string
  filter_file :: "string option"
  num_threads :: int
  total_readout_time_arg :: "string option"
  combine_all_dwis :: bool
  t1w_image_suffix :: "string option"
  t1w_mask_dataset :: "string option"
  work_dir :: string

text \<open>What the top of the script has fixed when the loop over the groups starts.\<close>

record run_context =
  t1w_path :: string
  t1w_skull_stripped_path :: "string option"
  working_dir :: string

text \<open>
  Lines 203 and 204: the flag \<^verbatim>\<open>t1w_is_skull_stripped\<close> is set exactly when the path
  is not \<^verbatim>\<open>None\<close>.
\<close>

definition t1w_is_skull_stripped :: "run_context \<Rightarrow> bool" where
  "t1w_is_skull_stripped C = (t1w_skull_stripped_path C \<noteq> None)"

type_synonym 'a result = "(py_error + 'a) \<times> world"

definition py_print :: "string \<Rightarrow> world \<Rightarrow> world" where
  "py_print s w = w\<lparr>stdout := stdout w @ [s]\<rparr>"

text \<open>\<^verbatim>\<open>with open(p) as fh: json.load(fh)\<close>\<close>

definition open_json :: "(string \<rightharpoonup> content) \<Rightarrow> string \<Rightarrow> py_error + sidecar" where
  "open_json fs p =
     (case fs p of
        None \<Rightarrow> Inl (FileNotFoundError p)
      | Some (JsonFile d) \<Rightarrow> Inr d
      | Some (Other t) \<Rightarrow> Inl JSONDecodeError)"

text \<open>\<^verbatim>\<open>shutil.copy(src, dst)\<close>\<close>

definition shutil_copy :: "string \<Rightarrow> string \<Rightarrow> world \<Rightarrow> unit result" where
  "shutil_copy src dst w =
     (case files w src of
        None \<Rightarrow> (Inl (FileNotFoundError src), w)
      | Some f \<Rightarrow>
          if src = dst then (Inl SameFileError, w)
          else (Inr (), w\<lparr>files := (files w)(dst \<mapsto> f)\<rparr>))"

text \<open>\<^verbatim>\<open>prefix + v\<close> for a string \<open>prefix\<close>: a \<^verbatim>\<open>TypeError\<close> unless \<open>v\<close> is a string.\<close>

definition str_plus :: "string \<Rightarrow> json \<Rightarrow> py_error + string" where
  "str_plus prefix v = (case v of JStr s \<Rightarrow> Inr (prefix @ s) | _ \<Rightarrow> Inl TypeError)"

text \<open>\<^verbatim>\<open>sep.join(xs)\<close>\<close>

fun str_join :: "string \<Rightarrow> string list \<Rightarrow> string" where
  "str_join sep [] = []"
| "str_join sep [x] = x"
| "str_join sep (x # y # ys) = x @ sep @ str_join sep (y # ys)"

definition sidecar_of :: "string \<Rightarrow> string" where
  "sidecar_of p = str_replace ''.nii.gz'' ''.json'' p"

section \<open>Phase-encoding validation (lines 213 to 233)\<close>

text \<open>
  The loop over the images of a group. \<open>pe_direction\<close> starts as \<^verbatim>\<open>None\<close>; the loop
  does not stop at a mismatch, it only lowers the flag.
\<close>

fun pe_direction_loop ::
  "bidsfile list \<Rightarrow> json \<times> bool \<Rightarrow> world \<Rightarrow> (json \<times> bool) result" where
  "pe_direction_loop [] acc w = (Inr acc, w)"
| "pe_direction_loop (dwi_image # rest) (pe_direction, pe_direction_consistent) w =
     (let w1 = py_print (''Checking phase encoding direction for '' @ filename dwi_image) w
      in case open_json (files w1) (sidecar_of (path dwi_image)) of
           Inl e \<Rightarrow> (Inl e, w1)
         | Inr sidecar \<Rightarrow>
             (case sidecar ''PhaseEncodingDirection'' of
                None \<Rightarrow> (Inl (KeyError ''PhaseEncodingDirection''), w1)
              | Some v \<Rightarrow>
                  if pe_direction \<noteq> JNull then
                    (if pe_direction \<noteq> v
                     then pe_direction_loop rest (pe_direction, False)
                            (py_print (''Phase encoding direction for '' @ filename dwi_image
                                       @ '' does not match previous images in group'') w1)
                     else pe_direction_loop rest (pe_direction, pe_direction_consistent) w1)
                  else pe_direction_loop rest (v, pe_direction_consistent) w1))"

text \<open>Sequencing: an exception ends the run in the state it was raised in.\<close>

definition and_then :: "'a result \<Rightarrow> ('a \<Rightarrow> world \<Rightarrow> 'b result) \<Rightarrow> 'b result" where
  "and_then m f = (case m of (Inl e, w) \<Rightarrow> (Inl e, w) | (Inr x, w) \<Rightarrow> f x w)"

section \<open>Readout time (lines 242 to 269)\<close>

text \<open>
  Lines 242 to 259: the value of the reference image's sidecar, else the command line's;
  the flag says that the sidecar had none.
\<close>

definition total_readout_time :: "args \<Rightarrow> bidsfile \<Rightarrow> world \<Rightarrow> (json \<times> bool) result" where
  "total_readout_time A dwi_ref w =
     (case open_json (files w) (sidecar_of (path dwi_ref)) of
        Inl e \<Rightarrow> (Inl e, w)
      | Inr sidecar \<Rightarrow>
          (case sidecar ''TotalReadoutTime'' of
             Some v \<Rightarrow> (Inr (v, False), w)
           | None \<Rightarrow>
               (let w1 = py_print (''No total readout time in sidecar for '' @ path dwi_ref) w
                in case total_readout_time_arg A of
                     None \<Rightarrow>
                       (Inl (SystemExit 1),
                        py_print ''No total readout time in sidecar and no readout time specified on command line'' w1)
                   | Some t \<Rightarrow> (Inr (JStr t, True), w1))))"

text \<open>
  Lines 263 to 269, the body of the loop that inserts the readout time. It names the
  reference image's sidecar (\<^verbatim>\<open>dwi_ref.path\<close>) whatever \<open>dwi_image\<close> is, sets the value
  in the loaded dict only, opens the file for writing, which empties it, and then
  evaluates \<^verbatim>\<open>json.dump(fmap_sidecar, fmap_sidecar_fh, ...)\<close>: a \<^verbatim>\<open>NameError\<close> while
  \<^verbatim>\<open>fmap_sidecar\<close> is unbound, a \<^verbatim>\<open>ValueError\<close> on the closed handle of an earlier
  group otherwise.
\<close>

definition insert_total_readout_time ::
  "bidsfile \<Rightarrow> json \<Rightarrow> bidsfile \<Rightarrow> world \<Rightarrow> unit result" where
  "insert_total_readout_time dwi_ref trt dwi_image w =
     (let sidecar_file = sidecar_of (path dwi_ref)
      in case str_plus ''Inserting total readout time from command line: '' trt of
           Inl e \<Rightarrow> (Inl e, w)
         | Inr msg \<Rightarrow>
             (let w1 = py_print msg w
              in case open_json (files w1) sidecar_file of
                   Inl e \<Rightarrow> (Inl e, w1)
                 | Inr sidecar \<Rightarrow>
                     (let w2 = w1\<lparr>files := (files w1)(sidecar_file \<mapsto> Other [])\<rparr>
                      in case fmap_sidecar_var w2 of
                           None \<Rightarrow> (Inl (NameError ''fmap_sidecar''), w2)
                         | Some d \<Rightarrow> (Inl ValueError, w2))))"

fun dwi_needs_total_readout_time ::
  "bidsfile list \<Rightarrow> bidsfile \<Rightarrow> json \<Rightarrow> world \<Rightarrow> unit result" where
  "dwi_needs_total_readout_time [] dwi_ref trt w = (Inr (), w)"
| "dwi_needs_total_readout_time (dwi_image # rest) dwi_ref trt w =
     and_then (insert_total_readout_time dwi_ref trt dwi_image w)
       (\<lambda>u. dwi_needs_total_readout_time rest dwi_ref trt)"

section \<open>Staging and the synthesis run (lines 272 to 334)\<close>

definition phase_encode_vectors :: "string \<rightharpoonup> int list" where
  "phase_encode_vectors =
     [''i'' \<mapsto> [1, 0, 0], ''i-'' \<mapsto> [-1, 0, 0], ''j'' \<mapsto> [0, 1, 0],
      ''j-'' \<mapsto> [0, -1, 0], ''k'' \<mapsto> [0, 0, 1], ''k-'' \<mapsto> [0, 0, -1]]"

definition phase_encode_labels :: "string \<rightharpoonup> string" where
  "phase_encode_labels = [''i'' \<mapsto> ''RL'', ''i-'' \<mapsto> ''LR'', ''j'' \<mapsto> ''PA'', ''j-'' \<mapsto> ''AP'']"

text \<open>\<^verbatim>\<open>str(x)\<close> for the entries of the vectors, which are 1, 0 and -1.\<close>

definition str_int :: "int \<Rightarrow> string" where
  "str_int x = (if x = 0 then ''0'' else if 0 < x then ''1'' else ''-1'')"

definition tmp_input_dir :: "run_context \<Rightarrow> string \<Rightarrow> string" where
  "tmp_input_dir C grp = os_path_join (working_dir C) [grp @ ''_synb0_input'']"

definition tmp_output_dir :: "run_context \<Rightarrow> string \<Rightarrow> string" where
  "tmp_output_dir C grp = os_path_join (working_dir C) [grp @ ''_synb0_output'']"

definition tmp_singularity_dir :: "run_context \<Rightarrow> string \<Rightarrow> string" where
  "tmp_singularity_dir C grp = os_path_join (working_dir C) [grp @ ''_synb0_tmpdir'']"

text \<open>
  Lines 296 to 303: \<^verbatim>\<open>fslroi\<close> is run, and the script looks for the output file itself.
\<close>

definition b0_input :: "env \<Rightarrow> run_context \<Rightarrow> string \<Rightarrow> bidsfile \<Rightarrow> world \<Rightarrow> unit result" where
  "b0_input E C grp dwi_ref w =
     (let b0 = os_path_join (tmp_input_dir C grp) [''b0.nii.gz''];
          w1 = w\<lparr>calls := calls w @ [Fslroi (path dwi_ref) b0],
                  files := (case fslroi_out E (files w) (path dwi_ref) of
                              None \<Rightarrow> files w
                            | Some f \<Rightarrow> (files w)(b0 \<mapsto> f))\<rparr>
      in if files w1 b0 = None
         then (Inl (SystemExit 1), py_print (''Could not extract b0 image from '' @ path dwi_ref) w1)
         else (Inr (), w1))"

text \<open>Lines 305 to 318: the structural image and the two lines of \<^verbatim>\<open>acqparams.txt\<close>.\<close>

definition acqparams ::
  "env \<Rightarrow> run_context \<Rightarrow> string \<Rightarrow> string \<Rightarrow> json \<Rightarrow> world \<Rightarrow> unit result" where
  "acqparams E C grp pe_direction trt w =
     (let t1_input = os_path_join (tmp_input_dir C grp) [''T1.nii.gz''];
          src = (case t1w_skull_stripped_path C of Some p \<Rightarrow> p | None \<Rightarrow> t1w_path C)
      in and_then (shutil_copy src t1_input w)
           (\<lambda>u w1.
              let p = os_path_join (tmp_input_dir C grp) [''acqparams.txt''];
                  w2 = w1\<lparr>files := (files w1)(p \<mapsto> Other [])\<rparr>
              in case phase_encode_vectors pe_direction of
                   None \<Rightarrow> (Inl (KeyError pe_direction), w2)
                 | Some vec \<Rightarrow>
                     (let v = str_join '' '' (map str_int vec)
                      in (Inr (),
                          w2\<lparr>files := (files w2)(p \<mapsto>
                                Other (v @ '' '' @ py_str E trt @ [CHR 0x0A]
                                       @ v @ '' 0.000'' @ [CHR 0x0A]))\<rparr>))))"

text \<open>Lines 320 to 334: the call of the container.\<close>

definition synb0_cmd_list :: "env \<Rightarrow> args \<Rightarrow> run_context \<Rightarrow> string \<Rightarrow> string list" where
  "synb0_cmd_list E A C grp =
     [''singularity'', ''run'', ''--cleanenv'', ''--no-home'',
      ''-B'', realpath E (tmp_input_dir C grp) @ '':/INPUTS'',
      ''-B'', realpath E (tmp_output_dir C grp) @ '':/OUTPUTS'',
      ''-B'', realpath E (tmp_singularity_dir C grp) @ '':/tmp'',
      container A, ''--notopup'']
     @ (if t1w_is_skull_stripped C then [''--stripped''] else [])"

definition synb0_run :: "env \<Rightarrow> args \<Rightarrow> run_context \<Rightarrow> string \<Rightarrow> world \<Rightarrow> unit result" where
  "synb0_run E A C grp w =
     (if \<not> which_singularity E
      then (Inl (RuntimeError ''singularity executable not found''), w)
      else
        (let cmd = synb0_cmd_list E A C grp;
             w1 = py_print (''---synb0 call---'' @ [CHR 0x0A] @ str_join '' '' cmd
                            @ [CHR 0x0A] @ ''---'') w;
             out = os_path_join (tmp_output_dir C grp) [''b0_u.nii.gz'']
         in (Inr (),
             w1\<lparr>calls := calls w1 @ [Singularity cmd],
                 files := (case synb0_out E (files w1) cmd of
                             None \<Rightarrow> files w1
                           | Some f \<Rightarrow> (files w1)(out \<mapsto> f))\<rparr>)))"

section \<open>The field map and its sidecar (lines 336 to 369)\<close>

text \<open>
  Line 338: \<^verbatim>\<open>pe_direction[:-1] if pe_direction[-1] == '-' else pe_direction + '-'\<close>;
  \<^verbatim>\<open>pe_direction[-1]\<close> raises on the empty string.
\<close>

definition fmap_phase_encode_dir :: "string \<Rightarrow> py_error + string" where
  "fmap_phase_encode_dir pe_direction =
     (if pe_direction = [] then Inl IndexError
      else if last pe_direction = CHR ''-'' then Inr (butlast pe_direction)
      else Inr (pe_direction @ ''-''))"

text \<open>Line 340: \<^verbatim>\<open>phase_encode_labels[fmap_phase_encode_dir]\<close>\<close>

definition fmap_phase_encode_label :: "string \<Rightarrow> py_error + string" where
  "fmap_phase_encode_label d =
     (case phase_encode_labels d of None \<Rightarrow> Inl (KeyError d) | Some l \<Rightarrow> Inr l)"

definition fmap_file_name :: "args \<Rightarrow> string \<Rightarrow> string \<Rightarrow> string" where
  "fmap_file_name A grp label =
     (if grp = ''noacq''
      then ''sub-'' @ participant_label A @ ''_ses-'' @ session_label A
           @ ''_acq-synb0_dir-'' @ label @ ''_epi.nii.gz''
      else ''sub-'' @ participant_label A @ ''_ses-'' @ session_label A
           @ ''_acq-'' @ grp @ ''synb0_dir-'' @ label @ ''_epi.nii.gz'')"

definition output_dir :: "args \<Rightarrow> string" where
  "output_dir A =
     os_path_join (bids_dataset A)
       [''sub-'' @ participant_label A, ''ses-'' @ session_label A, ''fmap'']"

text \<open>Lines 361 to 366: the four assignments to the loaded sidecar.\<close>

definition fmap_intended_files :: "args \<Rightarrow> bidsfile list \<Rightarrow> json" where
  "fmap_intended_files A group_dwi_images =
     JArr (map (\<lambda>f. JStr (os_path_join (''ses-'' @ session_label A) [''dwi'', filename f]))
             group_dwi_images)"

definition fmap_sidecar_fields :: "args \<Rightarrow> bidsfile list \<Rightarrow> string \<Rightarrow> sidecar \<Rightarrow> sidecar" where
  "fmap_sidecar_fields A group_dwi_images fped loaded =
     loaded(''IntendedFor'' \<mapsto> fmap_intended_files A group_dwi_images,
            ''PhaseEncodingDirection'' \<mapsto> JStr fped,
            ''TotalReadoutTime'' \<mapsto> JNum (1 / 10000000),
            ''EffectiveEchoSpacing'' \<mapsto> JNum 0)"

text \<open>Line 352: the synthesized volume is copied into \<^verbatim>\<open>fmap/\<close>.\<close>

definition fmap_volume :: "args \<Rightarrow> run_context \<Rightarrow> string \<Rightarrow> string \<Rightarrow> world \<Rightarrow> unit result" where
  "fmap_volume A C grp name w =
     shutil_copy (os_path_join (tmp_output_dir C grp) [''b0_u.nii.gz''])
       (os_path_join (output_dir A) [name]) w"

text \<open>
  Lines 354 to 369: the reference image's sidecar is copied, loaded, edited and written
  back. The globals \<^verbatim>\<open>fmap_sidecar\<close> and \<^verbatim>\<open>fmap_sidecar_fh\<close> are bound from here on.
\<close>

definition fmap_sidecar ::
  "args \<Rightarrow> bidsfile list \<Rightarrow> string \<Rightarrow> string \<Rightarrow> string \<Rightarrow> world \<Rightarrow> unit result" where
  "fmap_sidecar A group_dwi_images dwi_ref_sidecar_file name fped w =
     (let fmap_sidecar_file = os_path_join (output_dir A) [str_replace ''.nii.gz'' ''.json'' name]
      in and_then (shutil_copy dwi_ref_sidecar_file fmap_sidecar_file w)
           (\<lambda>u w1.
              case open_json (files w1) fmap_sidecar_file of
                Inl e \<Rightarrow> (Inl e, w1)
              | Inr loaded \<Rightarrow>
                  (let edited = fmap_sidecar_fields A group_dwi_images fped loaded
                   in (Inr (),
                       w1\<lparr>fmap_sidecar_var := Some edited,
                           files := (files w1)(fmap_sidecar_file \<mapsto> JsonFile edited)\<rparr>))))"

section \<open>One group, all groups (lines 210 to 369)\<close>

text \<open>Lines 237 to 369, for a group whose direction \<open>pe_direction\<close> is a string.\<close>

definition synthesize ::
  "env \<Rightarrow> args \<Rightarrow> run_context \<Rightarrow> string \<Rightarrow> bidsfile list \<Rightarrow> bidsfile \<Rightarrow> string
     \<Rightarrow> world \<Rightarrow> unit result" where
  "synthesize E A C grp group_dwi_images dwi_ref pe_direction w =
     and_then (total_readout_time A dwi_ref w) (\<lambda>(trt, needs) w1.
     and_then (if needs then dwi_needs_total_readout_time group_dwi_images dwi_ref trt w1
               else (Inr (), w1)) (\<lambda>u w2.
     and_then (b0_input E C grp dwi_ref w2) (\<lambda>u w3.
     and_then (acqparams E C grp pe_direction trt w3) (\<lambda>u w4.
     and_then (synb0_run E A C grp w4) (\<lambda>u w5.
     and_then (fmap_phase_encode_dir pe_direction, w5) (\<lambda>fped w6.
     and_then (fmap_phase_encode_label fped, w6) (\<lambda>label w7.
     and_then (fmap_volume A C grp (fmap_file_name A grp label) w7) (\<lambda>u w8.
       fmap_sidecar A group_dwi_images (sidecar_of (path dwi_ref))
         (fmap_file_name A grp label) fped w8))))))))"

text \<open>
  The body of the loop over the groups. An inconsistent group is left with
  \<^verbatim>\<open>continue\<close>; printing the direction raises unless it is a string.
\<close>

definition process_group ::
  "env \<Rightarrow> args \<Rightarrow> run_context \<Rightarrow> string \<times> bidsfile list \<Rightarrow> world \<Rightarrow> unit result" where
  "process_group E A C g w =
     (let grp = fst g; group_dwi_images = snd g
      in and_then (pe_direction_loop group_dwi_images (JNull, True)
                     (py_print (''Running synb0 on group '' @ grp) w))
           (\<lambda>(pe_direction, pe_direction_consistent) w1.
              if \<not> pe_direction_consistent
              then (Inr (), py_print (''Phase encoding direction not consistent for group ''
                                      @ grp @ ''. Skipping group'') w1)
              else
                (case pe_direction of
                   JStr pe \<Rightarrow>
                     (let w2 = py_print (''Phase encoding direction for group is '' @ pe) w1
                      in case group_dwi_images of
                           [] \<Rightarrow> (Inl IndexError, w2)
                         | dwi_ref # rest \<Rightarrow>
                             synthesize E A C grp group_dwi_images dwi_ref pe w2)
                 | _ \<Rightarrow> (Inl TypeError, w1))))"

fun run_groups ::
  "env \<Rightarrow> args \<Rightarrow> run_context \<Rightarrow> groups \<Rightarrow> world \<Rightarrow> unit result" where
  "run_groups E A C [] w = (Inr (), w)"
| "run_groups E A C (g # gs) w =
     and_then (process_group E A C g w) (\<lambda>u. run_groups E A C gs)"

section \<open>The brain mask (lines 61 to 86 and 194 to 206)\<close>

text \<open>
  \<^verbatim>\<open>mask_json['Sources'][0]\<close> on a loaded value \<open>v\<close> of the key: the first element of a
  list, the first character of a string, and an exception otherwise.
\<close>

definition sources0 :: "json \<Rightarrow> py_error + json" where
  "sources0 v =
     (case v of
        JArr [] \<Rightarrow> Inl IndexError
      | JArr (x # xs) \<Rightarrow> Inr x
      | JStr [] \<Rightarrow> Inl IndexError
      | JStr (c # cs) \<Rightarrow> Inr (JStr [c])
      | JObj kvs \<Rightarrow> Inl (KeyError ''0'')
      | _ \<Rightarrow> Inl TypeError)"

text \<open>Whether one mask sidecar names the structural image; \<^verbatim>\<open>.endswith\<close> needs a string.\<close>

definition mask_matches ::
  "(string \<rightharpoonup> content) \<Rightarrow> string \<Rightarrow> string \<Rightarrow> string \<Rightarrow> py_error + bool" where
  "mask_matches fs mask_dir t1w_filename mask_sidecar =
     (case open_json fs (os_path_join mask_dir [mask_sidecar]) of
        Inl e \<Rightarrow> Inl e
      | Inr mask_json \<Rightarrow>
          (case mask_json ''Sources'' of
             None \<Rightarrow> Inl (KeyError ''Sources'')
           | Some v \<Rightarrow>
               (case sources0 v of
                  Inl e \<Rightarrow> Inl e
                | Inr (JStr s) \<Rightarrow> Inr (endswith s t1w_filename)
                | Inr _ \<Rightarrow> Inl AttributeError)))"

text \<open>The loop of lines 70 to 78: the first match wins.\<close>

fun t1w_mask ::
  "(string \<rightharpoonup> content) \<Rightarrow> string \<Rightarrow> string \<Rightarrow> string list \<Rightarrow> py_error + string option" where
  "t1w_mask fs mask_dir t1w_filename [] = Inr None"
| "t1w_mask fs mask_dir t1w_filename (mask_sidecar # rest) =
     (case mask_matches fs mask_dir t1w_filename mask_sidecar of
        Inl e \<Rightarrow> Inl e
      | Inr True \<Rightarrow>
          Inr (Some (os_path_join mask_dir [str_replace ''.json'' ''.nii.gz'' mask_sidecar]))
      | Inr False \<Rightarrow> t1w_mask fs mask_dir t1w_filename rest)"

definition mask_dir_of :: "string \<Rightarrow> string \<Rightarrow> string \<Rightarrow> string" where
  "mask_dir_of dataset participant session =
     os_path_join dataset [''sub-'' @ participant, ''ses-'' @ session, ''anat'']"

text \<open>
  \<^verbatim>\<open>get_t1w_skull_stripped\<close>; it reads the globals \<^verbatim>\<open>working_dir\<close> and \<^verbatim>\<open>t1w_path\<close>,
  parameters here. The path is returned whether or not \<^verbatim>\<open>fslmaths\<close> wrote the file.
\<close>

definition get_t1w_skull_stripped ::
  "env \<Rightarrow> string \<Rightarrow> string \<Rightarrow> string \<Rightarrow> string \<Rightarrow> string \<Rightarrow> string \<Rightarrow> world
     \<Rightarrow> string option result" where
  "get_t1w_skull_stripped E wd t1w dataset participant session t1w_filename w =
     (let mask_dir = mask_dir_of dataset participant session
      in case listdir E mask_dir of
           None \<Rightarrow> (Inl (FileNotFoundError mask_dir), w)
         | Some names \<Rightarrow>
             (let mask_sidecars = filter (\<lambda>f. endswith f ''_mask.json'') names
              in case t1w_mask (files w) mask_dir t1w_filename mask_sidecars of
                   Inl e \<Rightarrow> (Inl e, w)
                 | Inr None \<Rightarrow> (Inr None, w)
                 | Inr (Some m) \<Rightarrow>
                     (let w1 = py_print (''Using T1w mask '' @ m) w;
                          out = os_path_join wd [''t1w_skull_stripped.nii.gz'']
                      in (Inr (Some out),
                          w1\<lparr>calls := calls w1 @ [Fslmaths t1w m out],
                              files := (case fslmaths_out E (files w1) t1w m of
                                          None \<Rightarrow> files w1
                                        | Some f \<Rightarrow> (files w1)(out \<mapsto> f))\<rparr>))))"

text \<open>Lines 194 to 206: which dataset is searched, and the message when nothing is found.\<close>

definition t1w_skull_stripped_stage ::
  "env \<Rightarrow> args \<Rightarrow> string \<Rightarrow> string \<Rightarrow> world \<Rightarrow> string option result" where
  "t1w_skull_stripped_stage E A wd t1w w =
     and_then
       (case t1w_mask_dataset A of
          Some d \<Rightarrow>
            get_t1w_skull_stripped E wd t1w d (participant_label A) (session_label A)
              (basename t1w) w
        | None \<Rightarrow>
            get_t1w_skull_stripped E wd t1w (bids_dataset A) (participant_label A)
              (session_label A) (basename t1w) w)
       (\<lambda>p w1.
          if p \<noteq> None then (Inr p, w1)
          else (Inr p, py_print (''No T1w brain mask found for subject '' @ participant_label A
                                 @ '' session '' @ session_label A) w1))"

section \<open>The script from top to bottom\<close>

text \<open>
  \<^verbatim>\<open>bids_filter\<close> never returns: \<^verbatim>\<open>Path\<close> is not imported, so a non-empty argument
  raises \<^verbatim>\<open>NameError\<close>, and an empty one reaches the \<^verbatim>\<open>raise\<close> of the else branch.
  The index is therefore only ever queried with the empty filter.
\<close>

definition bids_filter :: "string \<Rightarrow> py_error + unit" where
  "bids_filter v =
     (if v \<noteq> [] then Inl (NameError ''Path'')
      else Inl (Exception (''Unable to load BIDS filter file '' @ v)))"

text \<open>Lines 148 to 153: grouping, then the flag \<^verbatim>\<open>--combine-all-dwis\<close>.\<close>

definition dwi_groups :: "args \<Rightarrow> bidsfile list \<Rightarrow> py_error + groups" where
  "dwi_groups A dwi_images =
     (case get_dwi_images dwi_images of
        Inl e \<Rightarrow> Inl e
      | Inr g \<Rightarrow> Inr (if combine_all_dwis A then combine_all g else g))"

definition t1w_files :: "env \<Rightarrow> args \<Rightarrow> string list" where
  "t1w_files E A =
     (case t1w_image_suffix A of
        Some suffix \<Rightarrow>
          [os_path_join (bids_dataset A)
             [''sub-'' @ participant_label A, ''ses-'' @ session_label A, ''anat'',
              ''sub-'' @ participant_label A @ ''_ses-'' @ session_label A @ ''_'' @ suffix]]
      | None \<Rightarrow> layout_t1w E (participant_label A) (session_label A))"

definition main :: "env \<Rightarrow> args \<Rightarrow> world \<Rightarrow> unit result" where
  "main E A w =
     and_then (case filter_file A of None \<Rightarrow> Inr () | Some v \<Rightarrow> bids_filter v, w) (\<lambda>u w.
     and_then (dwi_groups A (layout_dwi E (participant_label A) (session_label A)), w)
       (\<lambda>groups w.
          let subj = ''subject '' @ participant_label A @ '' session '' @ session_label A
          in case t1w_files E A of
               [] \<Rightarrow> (Inl (SystemExit 1), py_print (''No T1w image found for '' @ subj) w)
             | [t1w] \<Rightarrow>
                 if files w t1w = None
                 then (Inl (SystemExit 1), py_print (''T1w image '' @ t1w @ '' not found'') w)
                 else
                   (let wd = mkdtemp E (work_dir A);
                        w1 = py_print (''DWI groups: '' @ str_groups E groups)
                               (py_print (''T1w: '' @ t1w)
                                  (py_print (''Processing '' @ subj) w))
                    in and_then (t1w_skull_stripped_stage E A wd t1w w1)
                         (\<lambda>p. run_groups E A
                                 \<lparr>t1w_path = t1w, t1w_skull_stripped_path = p,
                                  working_dir = wd\<rparr> groups))
             | _ \<Rightarrow>
                 (Inl (SystemExit 1),
                  py_print (''More than one T1w image found for '' @ subj
                            @ ''. Need a more specific filter'') w)))"

section \<open>Notions used to state the properties\<close>

text \<open>
  Every group is non-empty and holds only images filed under their own key.
\<close>

definition keyed :: "groups \<Rightarrow> bool" where
  "keyed g = (\<forall>k fs. (k, fs) \<in> set g \<longrightarrow> fs \<noteq> [] \<and> (\<forall>f \<in> set fs. acq_key f = Some k))"

text \<open>
  The \<^verbatim>\<open>PhaseEncodingDirection\<close> of an image, read as the script reads it: from the
  sidecar beside the image.
\<close>

definition pe_of :: "(string \<rightharpoonup> content) \<Rightarrow> bidsfile \<Rightarrow> json option" where
  "pe_of fs img =
     (case open_json fs (sidecar_of (path img)) of
        Inl e \<Rightarrow> None
      | Inr sidecar \<Rightarrow> sidecar ''PhaseEncodingDirection'')"

text \<open>
  The paths a group's processing writes before it copies the reference image's sidecar:
  the staged inputs, the container's output and the field map's volume.
\<close>

definition staged_paths :: "args \<Rightarrow> run_context \<Rightarrow> string \<Rightarrow> string \<Rightarrow> string set" where
  "staged_paths A C grp pe =
     {os_path_join (tmp_input_dir C grp) [''b0.nii.gz''],
      os_path_join (tmp_input_dir C grp) [''T1.nii.gz''],
      os_path_join (tmp_input_dir C grp) [''acqparams.txt''],
      os_path_join (tmp_output_dir C grp) [''b0_u.nii.gz'']}
     \<union> (case fmap_phase_encode_dir pe of
          Inl e \<Rightarrow> {}
        | Inr fped \<Rightarrow>
            (case phase_encode_labels fped of
               None \<Rightarrow> {}
             | Some label \<Rightarrow> {os_path_join (output_dir A) [fmap_file_name A grp label]}))"

text \<open>One field of the JSON object held by a file: an error when the file cannot be loaded.\<close>

definition sidecar_field ::
  "(string \<rightharpoonup> content) \<Rightarrow> string \<Rightarrow> string \<Rightarrow> py_error + json option" where
  "sidecar_field fs p k = (case open_json fs p of Inl e \<Rightarrow> Inl e | Inr d \<Rightarrow> Inr (d k))"

text \<open>The content of a file that holds no JSON object.\<close>

definition other_content :: "(string \<rightharpoonup> content) \<Rightarrow> string \<Rightarrow> string option" where
  "other_content fs p = (case fs p of Some (Other t) \<Rightarrow> Some t | _ \<Rightarrow> None)"

text \<open>
  The rule by which a mask belongs to the structural image, in the words of the
  specification: the file \<open>m\<close> of the directory holds a JSON object whose \<^verbatim>\<open>Sources[0]\<close>
  ends with the structural image's file name. (\<^verbatim>\<open>Sources\<close> may be a list that starts with a
  string or, as Python indexes strings too, a non-empty string.)
\<close>

definition sources0_names ::
  "(string \<rightharpoonup> content) \<Rightarrow> string \<Rightarrow> string \<Rightarrow> string \<Rightarrow> bool" where
  "sources0_names fs mask_dir t1w_filename m =
     (case fs (os_path_join mask_dir [m]) of
        Some (JsonFile d) \<Rightarrow>
          (case d ''Sources'' of
             Some (JArr (JStr s # rest)) \<Rightarrow> endswith s t1w_filename
           | Some (JStr (c # cs)) \<Rightarrow> endswith [c] t1w_filename
           | _ \<Rightarrow> False)
      | _ \<Rightarrow> False)"

section \<open>Worked inputs\<close>

text \<open>Subject 01, session 1 of a dataset under \<^verbatim>\<open>/data\<close>, with no optional argument.\<close>

definition ex_args :: args where
  "ex_args = \<lparr>container = ''synb0.sif'', bids_dataset = ''/data'', participant_label = ''01'',
     session_label = ''1'', filter_file = None, num_threads = 1, total_readout_time_arg = None,
     combine_all_dwis = False, t1w_image_suffix = None, t1w_mask_dataset = None,
     work_dir = ''/scratch''\<rparr>"

text \<open>
  A DWI image of that session; \<open>acq\<close> is \<open>None\<close> when the entities have no key
  \<^verbatim>\<open>acquisition\<close>, and the value of the key otherwise.
\<close>

definition ex_dwi :: "string \<Rightarrow> string option option \<Rightarrow> bidsfile" where
  "ex_dwi name acq =
     \<lparr>path = ''/data/sub-01/ses-1/dwi/'' @ name, filename = name,
      entities = (case acq of
                    None \<Rightarrow> [''subject'' \<mapsto> Some ''01'', ''session'' \<mapsto> Some ''1'']
                  | Some a \<Rightarrow> [''subject'' \<mapsto> Some ''01'', ''session'' \<mapsto> Some ''1'',
                                ''acquisition'' \<mapsto> a])\<rparr>"

definition ex_sidecar :: "string \<Rightarrow> json option \<Rightarrow> content" where
  "ex_sidecar pe trt =
     JsonFile (case trt of
                 None \<Rightarrow> [''PhaseEncodingDirection'' \<mapsto> JStr pe, ''EchoTime'' \<mapsto> JNum (89 / 1000)]
               | Some t \<Rightarrow> [''PhaseEncodingDirection'' \<mapsto> JStr pe, ''EchoTime'' \<mapsto> JNum (89 / 1000),
                            ''TotalReadoutTime'' \<mapsto> t])"

definition ex_t1w :: string where
  "ex_t1w = ''/data/sub-01/ses-1/anat/sub-01_ses-1_T1w.nii.gz''"

definition ex_world :: "(string \<rightharpoonup> content) \<Rightarrow> world" where
  "ex_world fs = \<lparr>files = fs, stdout = [], calls = [], fmap_sidecar_var = None\<rparr>"

text \<open>
  An environment: the index returns \<open>dwis\<close> and one structural image, the anatomical
  directory holds no mask, \<^verbatim>\<open>fslroi\<close> writes \<open>roi p\<close> for the image \<open>p\<close>, and the
  container writes its output.
\<close>

definition ex_env :: "bidsfile list \<Rightarrow> (string \<Rightarrow> content option) \<Rightarrow> env" where
  "ex_env dwis roi =
     \<lparr>layout_dwi = (\<lambda>p s. dwis), layout_t1w = (\<lambda>p s. [ex_t1w]),
      listdir = (\<lambda>d. Some [''sub-01_ses-1_T1w.nii.gz'', ''sub-01_ses-1_T1w.json'']),
      mkdtemp = (\<lambda>d. d @ ''/bids-synb0.x''), realpath = (\<lambda>p. p), which_singularity = True,
      py_str = (\<lambda>v. ''0.05''), str_groups = (\<lambda>g. ''{}''),
      fslroi_out = (\<lambda>fs. roi), fslmaths_out = (\<lambda>fs t m. None),
      synb0_out = (\<lambda>fs cmd. Some (Other ''b0_u''))\<rparr>"

definition ex_context :: run_context where
  "ex_context = \<lparr>t1w_path = ex_t1w, t1w_skull_stripped_path = None,
                  working_dir = ''/scratch/bids-synb0.x''\<rparr>"

text \<open>Four images: two with the label \<^verbatim>\<open>dir98\<close>, one with \<^verbatim>\<open>None\<close>, one with the empty label.\<close>

definition ex_four_dwis :: "bidsfile list" where
  "ex_four_dwis =
     [ex_dwi ''a.nii.gz'' (Some (Some ''dir98'')), ex_dwi ''b.nii.gz'' (Some None),
      ex_dwi ''c.nii.gz'' (Some (Some ''dir98'')), ex_dwi ''d.nii.gz'' (Some (Some []))]"

text \<open>Scenario B: three images of one group, two with direction \<^verbatim>\<open>i\<close> and one with \<^verbatim>\<open>i-\<close>.\<close>

definition scenario_b_dwis :: "bidsfile list" where
  "scenario_b_dwis =
     [ex_dwi ''b1_dwi.nii.gz'' (Some (Some ''dir98'')),
      ex_dwi ''b2_dwi.nii.gz'' (Some (Some ''dir98'')),
      ex_dwi ''b3_dwi.nii.gz'' (Some (Some ''dir98''))]"

definition scenario_b_files :: "string \<rightharpoonup> content" where
  "scenario_b_files =
     [ex_t1w \<mapsto> Other ''T1w'',
      ''/data/sub-01/ses-1/dwi/b1_dwi.json'' \<mapsto> ex_sidecar ''i'' (Some (JNum (1 / 20))),
      ''/data/sub-01/ses-1/dwi/b2_dwi.json'' \<mapsto> ex_sidecar ''i'' (Some (JNum (1 / 20))),
      ''/data/sub-01/ses-1/dwi/b3_dwi.json'' \<mapsto> ex_sidecar ''i-'' (Some (JNum (1 / 20)))]"

text \<open>
  Scenario A: two images with the label \<^verbatim>\<open>dir98\<close> and the direction \<^verbatim>\<open>j\<close>.
  \<open>scenario_files trt\<close> holds their sidecars, and that of a third image labelled
  \<^verbatim>\<open>dir99\<close>, with the readout time \<open>trt\<close> or with none.
\<close>

definition scenario_a_ref :: bidsfile where
  "scenario_a_ref = ex_dwi ''sub-01_ses-1_acq-dir98_run-1_dwi.nii.gz'' (Some (Some ''dir98''))"

definition scenario_a_run2 :: bidsfile where
  "scenario_a_run2 = ex_dwi ''sub-01_ses-1_acq-dir98_run-2_dwi.nii.gz'' (Some (Some ''dir98''))"

definition scenario_a_dwis :: "bidsfile list" where
  "scenario_a_dwis = [scenario_a_ref, scenario_a_run2]"

definition scenario_files :: "json option \<Rightarrow> (string \<rightharpoonup> content)" where
  "scenario_files trt =
     [ex_t1w \<mapsto> Other ''T1w'',
      ''/data/sub-01/ses-1/dwi/sub-01_ses-1_acq-dir98_run-1_dwi.json'' \<mapsto> ex_sidecar ''j'' trt,
      ''/data/sub-01/ses-1/dwi/sub-01_ses-1_acq-dir98_run-2_dwi.json'' \<mapsto> ex_sidecar ''j'' trt,
      ''/data/sub-01/ses-1/dwi/sub-01_ses-1_acq-dir99_dwi.json'' \<mapsto> ex_sidecar ''j'' trt]"

definition scenario_a_env :: env where
  "scenario_a_env = ex_env scenario_a_dwis (\<lambda>p. Some (Other ''b0''))"

text \<open>The state in which the run of scenario A ends.\<close>

definition scenario_a_end :: world where
  "scenario_a_end = snd (main scenario_a_env ex_args (ex_world (scenario_files (Some (JNum (1 / 20))))))"

text \<open>
  Two groups, \<^verbatim>\<open>dir98\<close> and \<^verbatim>\<open>dir99\<close>, and an \<^verbatim>\<open>fslroi\<close> that writes nothing for the
  reference image of the first.
\<close>

definition scenario_d_dir99 :: bidsfile where
  "scenario_d_dir99 = ex_dwi ''sub-01_ses-1_acq-dir99_dwi.nii.gz'' (Some (Some ''dir99''))"

definition scenario_d_dwis :: "bidsfile list" where
  "scenario_d_dwis = [scenario_a_ref, scenario_d_dir99]"

definition roi_fails_for :: "string \<Rightarrow> string \<Rightarrow> content option" where
  "roi_fails_for p q = (if q = p then None else Some (Other ''b0''))"

definition scenario_d_env :: "bidsfile list \<Rightarrow> env" where
  "scenario_d_env dwis =
     ex_env dwis (roi_fails_for ''/data/sub-01/ses-1/dwi/sub-01_ses-1_acq-dir98_run-1_dwi.nii.gz'')"

text \<open>A dataset whose anatomical directory holds a mask that names the structural image.\<close>

definition scenario_mask_files :: "string \<rightharpoonup> content" where
  "scenario_mask_files =
     (scenario_files (Some (JNum (1 / 20))))
       (''/data/sub-01/ses-1/anat/sub-01_ses-1_desc-brain_mask.json'' \<mapsto>
          JsonFile [''Sources'' \<mapsto> JArr [JStr ''bids::sub-01/ses-1/anat/sub-01_ses-1_T1w.nii.gz'']])"

text \<open>
  The same directory with a second mask, which names a T2w image; the listing is the
  argument.
\<close>

definition t2_mask_files :: "string \<rightharpoonup> content" where
  "t2_mask_files =
     scenario_mask_files
       (''/data/sub-01/ses-1/anat/sub-01_ses-1_acq-t2_mask.json'' \<mapsto>
          JsonFile [''Sources'' \<mapsto> JArr [JStr ''bids::sub-01/ses-1/anat/sub-01_ses-1_T2w.nii.gz'']])"


text \<open>The sidecars of scenario A with a readout time, that of \<^verbatim>\<open>dir99\<close> without.\<close>

definition mixed_files :: "string \<rightharpoonup> content" where
  "mixed_files =
     (scenario_files (Some (JNum (1 / 20))))
       (''/data/sub-01/ses-1/dwi/sub-01_ses-1_acq-dir99_dwi.json'' \<mapsto> ex_sidecar ''j'' None)"

text \<open>
  Scenario B with a fourth image of the group, whose sidecar has no
  \<^verbatim>\<open>PhaseEncodingDirection\<close>, and with the sidecar of the image labelled \<^verbatim>\<open>dir99\<close>.
\<close>

definition scenario_b_no_key :: bidsfile where
  "scenario_b_no_key = ex_dwi ''b4_dwi.nii.gz'' (Some (Some ''dir98''))"

definition scenario_b_more_files :: "string \<rightharpoonup> content" where
  "scenario_b_more_files =
     scenario_b_files
       (''/data/sub-01/ses-1/dwi/b4_dwi.json'' \<mapsto> JsonFile [''EchoTime'' \<mapsto> JNum (89 / 1000)],
        ''/data/sub-01/ses-1/dwi/sub-01_ses-1_acq-dir99_dwi.json'' \<mapsto>
          ex_sidecar ''j'' (Some (JNum (1 / 20))))"

section \<open>Grouping: properties\<close>

lemma keys_group_append:
  "map fst (group_append g k f) = (if k \<in> set (map fst g) then map fst g else map fst g @ [k])"
  by (auto simp: group_append_def Let_def split: prod.splits)

lemma distinct_group_append:
  "distinct (map fst g) \<Longrightarrow> distinct (map fst (group_append g k f))"
  by (simp add: keys_group_append)

lemma mset_add_member:
  "distinct (map fst g) \<Longrightarrow> k \<in> set (map fst g) \<Longrightarrow>
   mset (concat (map snd (map (\<lambda>(k', fs). if k' = k then (k', fs @ [f]) else (k', fs)) g)))
     = add_mset f (mset (concat (map snd g)))"
proof (induction g)
  case Nil
  then show ?case by simp
next
  case (Cons a g)
  obtain k' fs where a: "a = (k', fs)" by (cases a)
  show ?case
  proof (cases "k' = k")
    case True
    with Cons.prems a have "k \<notin> set (map fst g)" by auto
    then have "map (\<lambda>(k', fs). if k' = k then (k', fs @ [f]) else (k', fs)) g = g"
      by (induction g) auto
    with True a show ?thesis by simp
  next
    case False
    with Cons a show ?thesis by auto
  qed
qed

lemma mset_group_append:
  assumes "distinct (map fst g)"
  shows "mset (concat (map snd (group_append g k f))) = add_mset f (mset (concat (map snd g)))"
proof (cases "k \<in> set (map fst g)")
  case True
  with assms show ?thesis using mset_add_member[of g k f] by (simp add: group_append_def)
next
  case False
  have "distinct (map fst (g @ [(k, [])]))" using assms False by simp
  moreover have "k \<in> set (map fst (g @ [(k, [])]))" by simp
  ultimately have "mset (concat (map snd (map (\<lambda>(k', fs). if k' = k then (k', fs @ [f]) else (k', fs)) (g @ [(k, [])]))))
     = add_mset f (mset (concat (map snd (g @ [(k, [])]))))"
    by (rule mset_add_member)
  with False show ?thesis by (simp add: group_append_def)
qed

lemma keyed_group_append:
  "keyed g \<Longrightarrow> acq_key f = Some k \<Longrightarrow> keyed (group_append g k f)"
  unfolding keyed_def group_append_def Let_def by (fastforce split: if_splits)

lemma group_loop_inv:
  "group_loop fs g = Inr g' \<Longrightarrow> distinct (map fst g) \<Longrightarrow> keyed g \<Longrightarrow>
   distinct (map fst g') \<and> keyed g' \<and>
   mset (concat (map snd g')) = mset (concat (map snd g)) + mset fs"
proof (induction fs arbitrary: g)
  case Nil
  then show ?case by simp
next
  case (Cons f fs)
  from Cons.prems(1) obtain v where v: "entities f ''acquisition'' = Some v"
    by (auto split: option.splits)
  define k where "k = (case v of None \<Rightarrow> ''noacq'' | Some l \<Rightarrow> if l = [] then ''noacq'' else l)"
  have key: "acq_key f = Some k" using v by (auto simp: acq_key_def k_def split: option.splits)
  from Cons.prems(1) v have run: "group_loop fs (group_append g k f) = Inr g'"
    by (simp add: k_def Let_def)
  have "distinct (map fst (group_append g k f))" using Cons.prems(2) by (rule distinct_group_append)
  moreover have "keyed (group_append g k f)" using Cons.prems(3) key by (rule keyed_group_append)
  ultimately have "distinct (map fst g') \<and> keyed g' \<and>
     mset (concat (map snd g')) = mset (concat (map snd (group_append g k f))) + mset fs"
    using Cons.IH[OF run] by blast
  then show ?case using mset_group_append[OF Cons.prems(2)] by simp
qed

lemma group_loop_total:
  "\<forall>f \<in> set fs. entities f ''acquisition'' \<noteq> None \<Longrightarrow> \<exists>g'. group_loop fs g = Inr g'"
  by (induction fs arbitrary: g) (auto simp: Let_def split: option.splits)

lemma group_loop_keyerror:
  "\<exists>f \<in> set fs. entities f ''acquisition'' = None \<Longrightarrow> group_loop fs g = Inl (KeyError ''acquisition'')"
  by (induction fs arbitrary: g) (auto simp: Let_def split: option.splits)

lemma get_dwi_images_partition:
  assumes "get_dwi_images dwi_images = Inr g"
  shows "distinct (map fst g) \<and> mset (concat (map snd g)) = mset dwi_images \<and> keyed g"
  using group_loop_inv[of dwi_images "[]" g] assms
  by (simp add: get_dwi_images_def keyed_def)

lemma get_dwi_images_total:
  "\<forall>f \<in> set dwi_images. entities f ''acquisition'' \<noteq> None \<Longrightarrow>
   \<exists>g. get_dwi_images dwi_images = Inr g"
  unfolding get_dwi_images_def by (rule group_loop_total)

lemma ex_four_dwis_grouped:
  "get_dwi_images ex_four_dwis =
     Inr [(''dir98'', [ex_dwi ''a.nii.gz'' (Some (Some ''dir98'')),
                      ex_dwi ''c.nii.gz'' (Some (Some ''dir98''))]),
          (''noacq'', [ex_dwi ''b.nii.gz'' (Some None), ex_dwi ''d.nii.gz'' (Some (Some []))])]"
  by (simp add: ex_four_dwis_def get_dwi_images_def ex_dwi_def group_append_def Let_def)

text \<open>
  Claim C1. The grouper is to return, for every sequence of images, groups that partition
  it, each image under its acquisition label and an image without a label under
  \<^verbatim>\<open>noacq\<close>. That holds whenever every image's entities have the key
  \<^verbatim>\<open>acquisition\<close> (\<open>get_dwi_images_partition\<close>, \<open>get_dwi_images_total\<close>, and
  \<open>ex_four_dwis_grouped\<close> for the values \<^verbatim>\<open>None\<close> and \<^verbatim>\<open>''\<close>). An image whose entities
  lack the key, a file named without \<^verbatim>\<open>acq-\<close>, is not filed under \<^verbatim>\<open>noacq\<close>: the
  subscript raises \<^verbatim>\<open>KeyError\<close> before the test \<^verbatim>\<open>if not acq_label\<close> is reached, and no
  grouping is returned at all.
\<close>

theorem get_dwi_images_missing_key:
  "get_dwi_images [ex_dwi ''sub-01_ses-1_dwi.nii.gz'' None] = Inl (KeyError ''acquisition'')"
  by (simp add: get_dwi_images_def ex_dwi_def)

text \<open>
  Claim C2. With the flag \<^verbatim>\<open>--combine-all-dwis\<close>, whatever grouping \<open>g\<close> the grouper
  returned, the groups the run works on are exactly one, keyed \<^verbatim>\<open>combined\<close>; its members
  are the members of the groups of \<open>g\<close> one after the other, which are the images of the
  input, each as often as it occurs there. The images are grouped first and the grouping
  is combined afterwards.
\<close>

theorem combine_all_dwis_one_group:
  assumes "combine_all_dwis A" and "get_dwi_images dwi_images = Inr g"
  shows "dwi_groups A dwi_images = Inr [(''combined'', concat (map snd g))] \<and>
         combine_all g = [(''combined'', concat (map snd g))] \<and>
         mset (concat (map snd g)) = mset dwi_images"
  using assms get_dwi_images_partition[OF assms(2)]
  by (simp add: dwi_groups_def combine_all_def)

theorem combine_all_dwis_one_group_witness:
  "dwi_groups (ex_args\<lparr>combine_all_dwis := True\<rparr>) ex_four_dwis =
     Inr [(''combined'', [ex_dwi ''a.nii.gz'' (Some (Some ''dir98'')),
                         ex_dwi ''c.nii.gz'' (Some (Some ''dir98'')),
                         ex_dwi ''b.nii.gz'' (Some None), ex_dwi ''d.nii.gz'' (Some (Some []))])]"
proof -
  have flag: "combine_all_dwis (ex_args\<lparr>combine_all_dwis := True\<rparr>)" by simp
  from combine_all_dwis_one_group[OF flag ex_four_dwis_grouped] show ?thesis by simp
qed

text \<open>
  Claim C3. Inverting the axis twice gives the axis back for each of \<^verbatim>\<open>i\<close>, \<^verbatim>\<open>i-\<close>,
  \<^verbatim>\<open>j\<close> and \<^verbatim>\<open>j-\<close>, and the lookup of the file-name label raises \<^verbatim>\<open>KeyError\<close> for
  \<^verbatim>\<open>k\<close> and for \<^verbatim>\<open>k-\<close>.
\<close>

theorem axis_inversion_involutive:
  "fmap_phase_encode_dir ''i'' = Inr ''i-'' \<and> fmap_phase_encode_dir ''i-'' = Inr ''i'' \<and>
   fmap_phase_encode_dir ''j'' = Inr ''j-'' \<and> fmap_phase_encode_dir ''j-'' = Inr ''j'' \<and>
   fmap_phase_encode_label ''k'' = Inl (KeyError ''k'') \<and>
   fmap_phase_encode_label ''k-'' = Inl (KeyError ''k-'')"
  by (simp add: fmap_phase_encode_dir_def fmap_phase_encode_label_def phase_encode_labels_def)

section \<open>Phase-encoding validation: properties\<close>

lemma py_print_frame [simp]:
  "files (py_print s w) = files w" "calls (py_print s w) = calls w"
  "fmap_sidecar_var (py_print s w) = fmap_sidecar_var w"
  "stdout (py_print s w) = stdout w @ [s]"
  by (simp_all add: py_print_def)

lemma pe_direction_loop_frame:
  "pe_direction_loop imgs acc w = (r, w') \<Longrightarrow>
   files w' = files w \<and> calls w' = calls w \<and> fmap_sidecar_var w' = fmap_sidecar_var w"
proof (induction imgs acc w rule: pe_direction_loop.induct)
  case (1 acc w)
  then show ?case by simp
next
  case (2 dwi_image rest pe_direction pe_direction_consistent w)
  define w1 where "w1 = py_print (''Checking phase encoding direction for '' @ filename dwi_image) w"
  define w2 where "w2 = py_print (''Phase encoding direction for '' @ filename dwi_image
                                       @ '' does not match previous images in group'') w1"
  have fr: "files w1 = files w" "calls w1 = calls w" "fmap_sidecar_var w1 = fmap_sidecar_var w"
    "files w2 = files w" "calls w2 = calls w" "fmap_sidecar_var w2 = fmap_sidecar_var w"
    by (simp_all add: w1_def w2_def)
  show ?case
  proof (cases "open_json (files w1) (sidecar_of (path dwi_image))")
    case (Inl e)
    with "2.prems" fr show ?thesis by (auto simp: Let_def w1_def)
  next
    case (Inr sidecar)
    show ?thesis
    proof (cases "sidecar ''PhaseEncodingDirection''")
      case None
      with Inr "2.prems" fr show ?thesis by (auto simp: Let_def w1_def)
    next
      case (Some v)
      consider (a) "pe_direction \<noteq> JNull" "pe_direction \<noteq> v"
        | (b) "pe_direction \<noteq> JNull" "pe_direction = v" | (c) "pe_direction = JNull" by blast
      then show ?thesis
      proof cases
        case a
        with Inr Some "2.prems" have run: "pe_direction_loop rest (pe_direction, False) w2 = (r, w')"
          by (simp add: Let_def w1_def w2_def)
        from "2.IH"(1)[OF w1_def Inr Some a run[unfolded w2_def]] fr show ?thesis
          by (simp add: w2_def[symmetric])
      next
        case b
        with Inr Some "2.prems" have run: "pe_direction_loop rest (pe_direction, pe_direction_consistent) w1 = (r, w')"
          by (simp add: Let_def w1_def)
        from "2.IH"(2)[OF w1_def Inr Some b(1) _ run] b fr show ?thesis by simp
      next
        case c
        with Inr Some "2.prems" have run: "pe_direction_loop rest (v, pe_direction_consistent) w1 = (r, w')"
          by (simp add: Let_def w1_def)
        from "2.IH"(3)[OF w1_def Inr Some _ run] c fr show ?thesis by simp
      qed
    qed
  qed
qed

lemma pe_direction_loop_strings:
  assumes "\<forall>img \<in> set imgs. \<exists>s. pe_of (files w) img = Some (JStr s)"
  shows "\<exists>w'. pe_direction_loop imgs (JStr p, c) w
           = (Inr (JStr p, c \<and> (\<forall>img \<in> set imgs. pe_of (files w) img = Some (JStr p))), w')"
  using assms
proof (induction imgs arbitrary: c w)
  case Nil
  then show ?case by simp
next
  case (Cons img imgs)
  from Cons.prems obtain s where s: "pe_of (files w) img = Some (JStr s)" by auto
  then obtain sc where sc: "open_json (files w) (sidecar_of (path img)) = Inr sc"
    "sc ''PhaseEncodingDirection'' = Some (JStr s)"
    by (auto simp: pe_of_def split: sum.splits)
  define w1 where "w1 = py_print (''Checking phase encoding direction for '' @ filename img) w"
  define w2 where "w2 = py_print (''Phase encoding direction for '' @ filename img
                                       @ '' does not match previous images in group'') w1"
  have f1: "files w1 = files w" and f2: "files w2 = files w" by (simp_all add: w1_def w2_def)
  have step: "pe_direction_loop (img # imgs) (JStr p, c) w =
      (if p \<noteq> s then pe_direction_loop imgs (JStr p, False) w2
       else pe_direction_loop imgs (JStr p, c) w1)"
    using sc by (simp add: Let_def w1_def w2_def)
  show ?case
  proof (cases "p = s")
    case True
    have "\<forall>i \<in> set imgs. \<exists>s. pe_of (files w1) i = Some (JStr s)" using Cons.prems f1 by simp
    from Cons.IH[OF this, of c] show ?thesis using step True s f1 by auto
  next
    case False
    have "\<forall>i \<in> set imgs. \<exists>s. pe_of (files w2) i = Some (JStr s)" using Cons.prems f2 by simp
    from Cons.IH[OF this, of False] show ?thesis using step False s f2 by auto
  qed
qed

lemma pe_direction_loop_start:
  assumes "\<forall>img \<in> set (dwi_ref # rest). \<exists>s. pe_of (files w) img = Some (JStr s)"
      and "pe_of (files w) dwi_ref = Some (JStr p)"
  shows "\<exists>w'. pe_direction_loop (dwi_ref # rest) (JNull, True) w
           = (Inr (JStr p, \<forall>img \<in> set rest. pe_of (files w) img = Some (JStr p)), w')"
proof -
  from assms(2) obtain sc where sc: "open_json (files w) (sidecar_of (path dwi_ref)) = Inr sc"
    "sc ''PhaseEncodingDirection'' = Some (JStr p)"
    by (auto simp: pe_of_def split: sum.splits)
  define w1 where "w1 = py_print (''Checking phase encoding direction for '' @ filename dwi_ref) w"
  have f1: "files w1 = files w" by (simp add: w1_def)
  have step: "pe_direction_loop (dwi_ref # rest) (JNull, True) w
              = pe_direction_loop rest (JStr p, True) w1"
    using sc by (simp add: Let_def w1_def)
  have "\<forall>i \<in> set rest. \<exists>s. pe_of (files w1) i = Some (JStr s)" using assms(1) f1 by simp
  from pe_direction_loop_strings[OF this, of p True] show ?thesis using step f1 by auto
qed

lemma run_groups_abort:
  "fst (process_group E A C g w) = Inl e \<Longrightarrow>
   run_groups E A C (g # gs) w = process_group E A C g w"
  by (cases "process_group E A C g w") (auto simp: and_then_def)

lemma run_groups_continue:
  "process_group E A C g w = (Inr (), w') \<Longrightarrow>
   run_groups E A C (g # gs) w = run_groups E A C gs w'"
  by (simp add: and_then_def)

text \<open>
  Claim C6, as the code has it. A group whose images all have a sidecar that can be loaded
  and holds a string as direction, one of them another string than the first image, is
  skipped: the warning is the last line printed, no file is written and no process is
  started for it, and the run goes on with the groups that follow, from the state the
  skipped group left.
\<close>

theorem inconsistent_group_is_skipped:
  assumes strs: "\<forall>img \<in> set imgs. \<exists>s. pe_of (files w) img = Some (JStr s)"
      and diff: "\<exists>img \<in> set imgs. pe_of (files w) img \<noteq> pe_of (files w) (hd imgs)"
  shows "\<exists>w'. process_group E A C (grp, imgs) w = (Inr (), w') \<and>
           files w' = files w \<and> calls w' = calls w \<and>
           last (stdout w') = ''Phase encoding direction not consistent for group '' @ grp
                              @ ''. Skipping group'' \<and>
           run_groups E A C ((grp, imgs) # gs) w = run_groups E A C gs w'"
proof -
  from diff obtain dwi_ref rest where imgs: "imgs = dwi_ref # rest" by (cases imgs) auto
  from strs imgs obtain p where p: "pe_of (files w) dwi_ref = Some (JStr p)" by auto
  define w0 where "w0 = py_print (''Running synb0 on group '' @ grp) w"
  have f0: "files w0 = files w" by (simp add: w0_def)
  from diff imgs p have bad: "\<not> (\<forall>img \<in> set rest. pe_of (files w0) img = Some (JStr p))"
    using f0 by auto
  from strs imgs f0 p
  obtain w1 where loop: "pe_direction_loop (dwi_ref # rest) (JNull, True) w0
       = (Inr (JStr p, \<forall>img \<in> set rest. pe_of (files w0) img = Some (JStr p)), w1)"
    using pe_direction_loop_start[of dwi_ref rest w0 p] by auto
  from pe_direction_loop_frame[OF loop] have fr: "files w1 = files w" "calls w1 = calls w"
    by (simp_all add: w0_def)
  define w' where "w' = py_print (''Phase encoding direction not consistent for group ''
                                      @ grp @ ''. Skipping group'') w1"
  have pg: "process_group E A C (grp, imgs) w = (Inr (), w')"
    using loop bad by (simp add: process_group_def Let_def imgs and_then_def w0_def w'_def)
  moreover have "files w' = files w" "calls w' = calls w" using fr by (simp_all add: w'_def)
  moreover have "last (stdout w') = ''Phase encoding direction not consistent for group '' @ grp
                              @ ''. Skipping group''" by (simp add: w'_def)
  moreover have "run_groups E A C ((grp, imgs) # gs) w = run_groups E A C gs w'"
    using pg by (rule run_groups_continue)
  ultimately show ?thesis by blast
qed

lemma scenario_b_more_pe:
  "pe_of scenario_b_more_files (ex_dwi ''b1_dwi.nii.gz'' (Some (Some ''dir98''))) = Some (JStr ''i'')"
  "pe_of scenario_b_more_files (ex_dwi ''b2_dwi.nii.gz'' (Some (Some ''dir98''))) = Some (JStr ''i'')"
  "pe_of scenario_b_more_files (ex_dwi ''b3_dwi.nii.gz'' (Some (Some ''dir98''))) = Some (JStr ''i-'')"
  by code_simp+

lemma scenario_b_then_dir99:
  "fst (run_groups (ex_env scenario_b_dwis (\<lambda>p. Some (Other ''b0''))) ex_args ex_context
          [(''dir98'', scenario_b_dwis), (''dir99'', [scenario_d_dir99])]
          (ex_world scenario_b_more_files)) = Inr ()"
  "other_content (files (snd (run_groups (ex_env scenario_b_dwis (\<lambda>p. Some (Other ''b0''))) ex_args
          ex_context [(''dir98'', scenario_b_dwis), (''dir99'', [scenario_d_dir99])]
          (ex_world scenario_b_more_files))))
     ''/data/sub-01/ses-1/fmap/sub-01_ses-1_acq-dir99synb0_dir-AP_epi.nii.gz'' = Some ''b0_u''"
  "other_content (files (snd (run_groups (ex_env scenario_b_dwis (\<lambda>p. Some (Other ''b0''))) ex_args
          ex_context [(''dir98'', scenario_b_dwis), (''dir99'', [scenario_d_dir99])]
          (ex_world scenario_b_more_files))))
     ''/data/sub-01/ses-1/fmap/sub-01_ses-1_acq-dir98synb0_dir-LR_epi.nii.gz'' = None"
  by code_simp+

theorem inconsistent_group_is_skipped_witness:
  "fst (process_group (ex_env scenario_b_dwis (\<lambda>p. Some (Other ''b0''))) ex_args ex_context
          (''dir98'', scenario_b_dwis) (ex_world scenario_b_more_files)) = Inr () \<and>
   files (snd (process_group (ex_env scenario_b_dwis (\<lambda>p. Some (Other ''b0''))) ex_args ex_context
          (''dir98'', scenario_b_dwis) (ex_world scenario_b_more_files))) = scenario_b_more_files \<and>
   calls (snd (process_group (ex_env scenario_b_dwis (\<lambda>p. Some (Other ''b0''))) ex_args ex_context
          (''dir98'', scenario_b_dwis) (ex_world scenario_b_more_files))) = [] \<and>
   run_groups (ex_env scenario_b_dwis (\<lambda>p. Some (Other ''b0''))) ex_args ex_context
     [(''dir98'', scenario_b_dwis), (''dir99'', [scenario_d_dir99])] (ex_world scenario_b_more_files)
     = run_groups (ex_env scenario_b_dwis (\<lambda>p. Some (Other ''b0''))) ex_args ex_context
         [(''dir99'', [scenario_d_dir99])]
         (snd (process_group (ex_env scenario_b_dwis (\<lambda>p. Some (Other ''b0''))) ex_args ex_context
                 (''dir98'', scenario_b_dwis) (ex_world scenario_b_more_files))) \<and>
   fst (run_groups (ex_env scenario_b_dwis (\<lambda>p. Some (Other ''b0''))) ex_args ex_context
          [(''dir98'', scenario_b_dwis), (''dir99'', [scenario_d_dir99])]
          (ex_world scenario_b_more_files)) = Inr () \<and>
   other_content (files (snd (run_groups (ex_env scenario_b_dwis (\<lambda>p. Some (Other ''b0''))) ex_args
          ex_context [(''dir98'', scenario_b_dwis), (''dir99'', [scenario_d_dir99])]
          (ex_world scenario_b_more_files))))
     ''/data/sub-01/ses-1/fmap/sub-01_ses-1_acq-dir99synb0_dir-AP_epi.nii.gz'' = Some ''b0_u''"
proof -
  define E where "E = ex_env scenario_b_dwis (\<lambda>p. Some (Other ''b0''))"
  define W where "W = ex_world scenario_b_more_files"
  have fs: "files W = scenario_b_more_files" and cs: "calls W = []"
    by (simp_all add: ex_world_def W_def)
  have strs: "\<forall>img \<in> set scenario_b_dwis. \<exists>s. pe_of (files W) img = Some (JStr s)"
    by (simp add: fs scenario_b_dwis_def scenario_b_more_pe)
  have diff: "\<exists>img \<in> set scenario_b_dwis. pe_of (files W) img \<noteq> pe_of (files W) (hd scenario_b_dwis)"
    by (simp add: fs scenario_b_dwis_def scenario_b_more_pe)
  from inconsistent_group_is_skipped[OF strs diff,
         where E = E and A = ex_args and C = ex_context and grp = "''dir98''"
           and gs = "[(''dir99'', [scenario_d_dir99])]"]
  obtain w' where w':
    "process_group E ex_args ex_context (''dir98'', scenario_b_dwis) W = (Inr (), w')"
    "files w' = files W" "calls w' = calls W"
    "run_groups E ex_args ex_context ((''dir98'', scenario_b_dwis) # [(''dir99'', [scenario_d_dir99])]) W
       = run_groups E ex_args ex_context [(''dir99'', [scenario_d_dir99])] w'"
    by blast
  have 1: "fst (process_group E ex_args ex_context (''dir98'', scenario_b_dwis) W) = Inr ()"
    by (simp only: w'(1) fst_conv)
  have 2: "files (snd (process_group E ex_args ex_context (''dir98'', scenario_b_dwis) W))
             = scenario_b_more_files"
    by (simp only: w'(1) snd_conv w'(2) fs)
  have 3: "calls (snd (process_group E ex_args ex_context (''dir98'', scenario_b_dwis) W)) = []"
    by (simp only: w'(1) snd_conv w'(3) cs)
  have 4: "run_groups E ex_args ex_context
             [(''dir98'', scenario_b_dwis), (''dir99'', [scenario_d_dir99])] W
           = run_groups E ex_args ex_context [(''dir99'', [scenario_d_dir99])]
               (snd (process_group E ex_args ex_context (''dir98'', scenario_b_dwis) W))"
    by (simp only: w'(1) snd_conv w'(4))
  from 1 2 3 4 scenario_b_then_dir99(1,2)[folded E_def W_def]
  show ?thesis unfolding E_def W_def by (intro conjI)
qed

text \<open>
  Claim C6 as stated covers every group whose images do not all share the first image's
  direction, and lets no such group end the run. The loop does not stop at a mismatch: it
  goes on to load the sidecars that follow. With the directions \<^verbatim>\<open>i\<close>, \<^verbatim>\<open>i-\<close> and a third
  sidecar without the field, the subscript raises \<^verbatim>\<open>KeyError\<close> and the whole run ends;
  the group \<^verbatim>\<open>dir99\<close> that follows is not processed, though alone it is.
\<close>

theorem missing_direction_aborts_counterexample:
  "fst (main (ex_env [ex_dwi ''b1_dwi.nii.gz'' (Some (Some ''dir98'')), ex_dwi ''b3_dwi.nii.gz'' (Some (Some ''dir98'')), scenario_b_no_key, scenario_d_dir99]
                (\<lambda>p. Some (Other ''b0''))) ex_args (ex_world scenario_b_more_files))
     = Inl (KeyError ''PhaseEncodingDirection'') \<and>
   pe_of scenario_b_more_files (ex_dwi ''b1_dwi.nii.gz'' (Some (Some ''dir98''))) = Some (JStr ''i'') \<and>
   pe_of scenario_b_more_files (ex_dwi ''b3_dwi.nii.gz'' (Some (Some ''dir98''))) = Some (JStr ''i-'') \<and>
   pe_of scenario_b_more_files scenario_b_no_key = None \<and>
   calls (snd (main (ex_env [ex_dwi ''b1_dwi.nii.gz'' (Some (Some ''dir98'')), ex_dwi ''b3_dwi.nii.gz'' (Some (Some ''dir98'')), scenario_b_no_key,
                             scenario_d_dir99]
                (\<lambda>p. Some (Other ''b0''))) ex_args (ex_world scenario_b_more_files))) = [] \<and>
   other_content (files (snd (main (ex_env [ex_dwi ''b1_dwi.nii.gz'' (Some (Some ''dir98'')), ex_dwi ''b3_dwi.nii.gz'' (Some (Some ''dir98'')),
                                            scenario_b_no_key, scenario_d_dir99]
                (\<lambda>p. Some (Other ''b0''))) ex_args (ex_world scenario_b_more_files))))
     ''/data/sub-01/ses-1/fmap/sub-01_ses-1_acq-dir99synb0_dir-AP_epi.nii.gz'' = None \<and>
   fst (main (ex_env [scenario_d_dir99] (\<lambda>p. Some (Other ''b0''))) ex_args
          (ex_world scenario_b_more_files)) = Inr () \<and>
   other_content (files (snd (main (ex_env [scenario_d_dir99] (\<lambda>p. Some (Other ''b0''))) ex_args
                                (ex_world scenario_b_more_files))))
     ''/data/sub-01/ses-1/fmap/sub-01_ses-1_acq-dir99synb0_dir-AP_epi.nii.gz'' = Some ''b0_u''"
  by code_simp

section \<open>One group and the whole run: helper facts\<close>

lemma process_group_consistent:
  assumes "\<forall>img \<in> set (dwi_ref # rest). pe_of (files w) img = Some (JStr pe)"
  shows "\<exists>w2. process_group E A C (grp, dwi_ref # rest) w
                 = synthesize E A C grp (dwi_ref # rest) dwi_ref pe w2 \<and>
              files w2 = files w \<and> calls w2 = calls w \<and>
              fmap_sidecar_var w2 = fmap_sidecar_var w"
proof -
  define w0 where "w0 = py_print (''Running synb0 on group '' @ grp) w"
  have f0: "files w0 = files w" by (simp add: w0_def)
  have strs: "\<forall>img \<in> set (dwi_ref # rest). \<exists>s. pe_of (files w0) img = Some (JStr s)"
    using assms f0 by simp
  have ref: "pe_of (files w0) dwi_ref = Some (JStr pe)" using assms f0 by simp
  have all: "\<forall>img \<in> set rest. pe_of (files w0) img = Some (JStr pe)" using assms f0 by simp
  from pe_direction_loop_start[OF strs ref] all
  obtain w1 where loop: "pe_direction_loop (dwi_ref # rest) (JNull, True) w0 = (Inr (JStr pe, True), w1)"
    by auto
  from pe_direction_loop_frame[OF loop]
  have fr: "files w1 = files w" "calls w1 = calls w" "fmap_sidecar_var w1 = fmap_sidecar_var w"
    by (simp_all add: w0_def)
  define w2 where "w2 = py_print (''Phase encoding direction for group is '' @ pe) w1"
  have "process_group E A C (grp, dwi_ref # rest) w
          = synthesize E A C grp (dwi_ref # rest) dwi_ref pe w2"
    using loop by (simp add: process_group_def Let_def and_then_def w0_def w2_def)
  moreover have "files w2 = files w" "calls w2 = calls w" "fmap_sidecar_var w2 = fmap_sidecar_var w"
    using fr by (simp_all add: w2_def)
  ultimately show ?thesis by blast
qed

lemma total_readout_time_sidecar:
  assumes "open_json (files w) (sidecar_of (path dwi_ref)) = Inr sidecar"
      and "sidecar ''TotalReadoutTime'' = Some v"
  shows "total_readout_time A dwi_ref w = (Inr (v, False), w)"
  using assms by (simp add: total_readout_time_def)

lemma total_readout_time_override:
  assumes "open_json (files w) (sidecar_of (path dwi_ref)) = Inr sidecar"
      and "sidecar ''TotalReadoutTime'' = None"
      and "total_readout_time_arg A = Some t"
  shows "total_readout_time A dwi_ref w
           = (Inr (JStr t, True),
              py_print (''No total readout time in sidecar for '' @ path dwi_ref) w)"
  using assms by (simp add: total_readout_time_def Let_def)

lemma total_readout_time_exit:
  assumes "open_json (files w) (sidecar_of (path dwi_ref)) = Inr sidecar"
      and "sidecar ''TotalReadoutTime'' = None"
      and "total_readout_time_arg A = None"
  shows "\<exists>w'. total_readout_time A dwi_ref w = (Inl (SystemExit 1), w') \<and>
              files w' = files w \<and> calls w' = calls w"
  using assms by (simp add: total_readout_time_def Let_def)

lemma synthesize_exit:
  assumes "open_json (files w) (sidecar_of (path dwi_ref)) = Inr sidecar"
      and "sidecar ''TotalReadoutTime'' = None"
      and "total_readout_time_arg A = None"
  shows "\<exists>w'. synthesize E A C grp imgs dwi_ref pe w = (Inl (SystemExit 1), w') \<and>
              files w' = files w \<and> calls w' = calls w"
proof -
  from total_readout_time_exit[OF assms] obtain w' where
    "total_readout_time A dwi_ref w = (Inl (SystemExit 1), w')" "files w' = files w" "calls w' = calls w"
    by blast
  then show ?thesis by (simp add: synthesize_def and_then_def)
qed

lemma sidecar_fieldD:
  "sidecar_field fs p k = Inr r \<Longrightarrow> \<exists>d. open_json fs p = Inr d \<and> d k = r"
  by (auto simp: sidecar_field_def split: sum.splits)

lemma sidecar_field_absent:
  "sidecar_field fs p k = Inl (FileNotFoundError q) \<Longrightarrow> fs p = None"
  by (auto simp: sidecar_field_def open_json_def split: option.splits content.splits)

lemma result_from_fst: "fst p = r \<Longrightarrow> p = (r, snd p)"
  by (cases p) simp

lemma scenario_pe:
  "pe_of (files (ex_world (scenario_files trt))) scenario_a_ref = Some (JStr ''j'')"
  "pe_of (files (ex_world (scenario_files trt))) scenario_a_run2 = Some (JStr ''j'')"
  by (cases trt; simp add: scenario_a_ref_def scenario_a_run2_def ex_dwi_def pe_of_def open_json_def
        sidecar_of_def ex_world_def scenario_files_def ex_sidecar_def)+

lemma scenario_ref:
  "sidecar_field (files (ex_world (scenario_files (Some (JNum (1 / 20))))))
     (sidecar_of (path scenario_a_ref)) ''TotalReadoutTime'' = Inr (Some (JNum (1 / 20)))"
  "sidecar_field (files (ex_world (scenario_files None)))
     (sidecar_of (path scenario_a_ref)) ''TotalReadoutTime'' = Inr None"
  by code_simp+

lemma scenario_a_main:
  "fst (main scenario_a_env ex_args (ex_world (scenario_files (Some (JNum (1 / 20)))))) = Inr ()"
  "other_content (files scenario_a_end)
     ''/data/sub-01/ses-1/fmap/sub-01_ses-1_acq-dir98synb0_dir-AP_epi.nii.gz'' = Some ''b0_u''"
  "sidecar_field (files scenario_a_end)
     ''/data/sub-01/ses-1/fmap/sub-01_ses-1_acq-dir98synb0_dir-AP_epi.json''
     ''PhaseEncodingDirection'' = Inr (Some (JStr ''j-''))"
  "sidecar_field (files scenario_a_end)
     ''/data/sub-01/ses-1/fmap/sub-01_ses-1_acq-dir98synb0_dir-AP_epi.json''
     ''IntendedFor'' = Inr (Some (JArr [JStr ''ses-1/dwi/sub-01_ses-1_acq-dir98_run-1_dwi.nii.gz'',
                                      JStr ''ses-1/dwi/sub-01_ses-1_acq-dir98_run-2_dwi.nii.gz'']))"
  by code_simp+

lemma scenario_a_groups:
  "dwi_groups ex_args scenario_a_dwis = Inr [(''dir98'', scenario_a_dwis)]"
  by (simp add: dwi_groups_def get_dwi_images_def scenario_a_dwis_def scenario_a_ref_def
        scenario_a_run2_def ex_dwi_def ex_args_def
        group_append_def Let_def)

lemma scenario_c_main:
  "fst (main scenario_a_env ex_args (ex_world (scenario_files None))) = Inl (SystemExit 1)"
  "calls (snd (main scenario_a_env ex_args (ex_world (scenario_files None)))) = []"
  by code_simp+

section \<open>Readout time: properties\<close>

text \<open>
  Claim C4, as the code has it. For a reference image whose sidecar can be read: a
  \<^verbatim>\<open>TotalReadoutTime\<close> in the sidecar is the value taken, whatever the command line says;
  the value of the command line is taken only when the sidecar has none; and when neither
  is there, for a group that has passed the check of the directions, the run ends with
  \<^verbatim>\<open>sys.exit(1)\<close> and no process has been started since that group was begun. What
  was run for the groups before it has been run.
\<close>

theorem readout_time_precedence:
  assumes ref: "open_json (files w) (sidecar_of (path dwi_ref)) = Inr sidecar"
  shows "(\<forall>v. sidecar ''TotalReadoutTime'' = Some v \<longrightarrow>
            total_readout_time A dwi_ref w = (Inr (v, False), w)) \<and>
         (\<forall>t. sidecar ''TotalReadoutTime'' = None \<and> total_readout_time_arg A = Some t \<longrightarrow>
            fst (total_readout_time A dwi_ref w) = Inr (JStr t, True)) \<and>
         (sidecar ''TotalReadoutTime'' = None \<and> total_readout_time_arg A = None \<and>
          (\<forall>img \<in> set (dwi_ref # rest). pe_of (files w) img = Some (JStr pe)) \<longrightarrow>
            (\<exists>w'. run_groups E A C ((grp, dwi_ref # rest) # gs) w = (Inl (SystemExit 1), w') \<and>
                   calls w' = calls w \<and> files w' = files w))"
proof (intro conjI allI impI)
  fix v assume "sidecar ''TotalReadoutTime'' = Some v"
  with ref show "total_readout_time A dwi_ref w = (Inr (v, False), w)"
    by (rule total_readout_time_sidecar)
next
  fix t assume "sidecar ''TotalReadoutTime'' = None \<and> total_readout_time_arg A = Some t"
  with ref show "fst (total_readout_time A dwi_ref w) = Inr (JStr t, True)"
    by (simp add: total_readout_time_override)
next
  assume h: "sidecar ''TotalReadoutTime'' = None \<and> total_readout_time_arg A = None \<and>
          (\<forall>img \<in> set (dwi_ref # rest). pe_of (files w) img = Some (JStr pe))"
  then obtain w2 where w2: "process_group E A C (grp, dwi_ref # rest) w
                 = synthesize E A C grp (dwi_ref # rest) dwi_ref pe w2"
     "files w2 = files w" "calls w2 = calls w"
    using process_group_consistent[of dwi_ref rest w pe E A C grp] by blast
  from ref w2(2) have ref2: "open_json (files w2) (sidecar_of (path dwi_ref)) = Inr sidecar" by simp
  from synthesize_exit[OF ref2, of A E C grp "dwi_ref # rest" pe] h
  obtain w' where w': "synthesize E A C grp (dwi_ref # rest) dwi_ref pe w2 = (Inl (SystemExit 1), w')"
    "files w' = files w2" "calls w' = calls w2" by auto
  have "run_groups E A C ((grp, dwi_ref # rest) # gs) w = (Inl (SystemExit 1), w')"
    using run_groups_abort[of E A C "(grp, dwi_ref # rest)" w "SystemExit 1" gs] w2(1) w'(1) by simp
  with w' w2 show "\<exists>w'. run_groups E A C ((grp, dwi_ref # rest) # gs) w = (Inl (SystemExit 1), w') \<and>
                   calls w' = calls w \<and> files w' = files w" by auto
qed

theorem readout_time_precedence_witness:
  "total_readout_time (ex_args\<lparr>total_readout_time_arg := Some ''0.1''\<rparr>) scenario_a_ref
     (ex_world (scenario_files (Some (JNum (1 / 20)))))
     = (Inr (JNum (1 / 20), False), ex_world (scenario_files (Some (JNum (1 / 20))))) \<and>
   fst (total_readout_time (ex_args\<lparr>total_readout_time_arg := Some ''0.1''\<rparr>) scenario_a_ref
          (ex_world (scenario_files None))) = Inr (JStr ''0.1'', True) \<and>
   fst (run_groups scenario_a_env ex_args ex_context [(''dir98'', scenario_a_dwis)]
          (ex_world (scenario_files None))) = Inl (SystemExit 1) \<and>
   calls (snd (run_groups scenario_a_env ex_args ex_context [(''dir98'', scenario_a_dwis)]
                 (ex_world (scenario_files None)))) = []"
proof -
  from sidecar_fieldD[OF scenario_ref(1)] obtain d1 where
    d1: "open_json (files (ex_world (scenario_files (Some (JNum (1 / 20))))))
           (sidecar_of (path scenario_a_ref)) = Inr d1"
        "d1 ''TotalReadoutTime'' = Some (JNum (1 / 20))" by blast
  from sidecar_fieldD[OF scenario_ref(2)] obtain d2 where
    d2: "open_json (files (ex_world (scenario_files None)))
           (sidecar_of (path scenario_a_ref)) = Inr d2"
        "d2 ''TotalReadoutTime'' = None" by blast
  have a1: "total_readout_time_arg (ex_args\<lparr>total_readout_time_arg := Some ''0.1''\<rparr>) = Some ''0.1''"
    by simp
  have a2: "total_readout_time_arg ex_args = None" by (simp add: ex_args_def)
  have pe: "\<forall>img \<in> set (scenario_a_ref # [scenario_a_run2]).
              pe_of (files (ex_world (scenario_files None))) img = Some (JStr ''j'')"
    using scenario_pe[of None] by simp
  have c0: "calls (ex_world (scenario_files None)) = []" by (simp add: ex_world_def)
  from readout_time_precedence[OF d1(1), of "ex_args\<lparr>total_readout_time_arg := Some ''0.1''\<rparr>"] d1(2)
  have p1: "total_readout_time (ex_args\<lparr>total_readout_time_arg := Some ''0.1''\<rparr>) scenario_a_ref
     (ex_world (scenario_files (Some (JNum (1 / 20)))))
     = (Inr (JNum (1 / 20), False), ex_world (scenario_files (Some (JNum (1 / 20)))))" by blast
  from readout_time_precedence[OF d2(1), of "ex_args\<lparr>total_readout_time_arg := Some ''0.1''\<rparr>"] d2(2) a1
  have p2: "fst (total_readout_time (ex_args\<lparr>total_readout_time_arg := Some ''0.1''\<rparr>) scenario_a_ref
          (ex_world (scenario_files None))) = Inr (JStr ''0.1'', True)" by blast
  from readout_time_precedence[OF d2(1), of ex_args "[scenario_a_run2]" "''j''" scenario_a_env
         ex_context "''dir98''" "[]"] d2(2) a2 pe
  obtain w' where "run_groups scenario_a_env ex_args ex_context
                     [(''dir98'', scenario_a_ref # [scenario_a_run2])]
                     (ex_world (scenario_files None)) = (Inl (SystemExit 1), w')"
    "calls w' = calls (ex_world (scenario_files None))" by blast
  with c0
  have p3: "fst (run_groups scenario_a_env ex_args ex_context [(''dir98'', scenario_a_dwis)]
          (ex_world (scenario_files None))) = Inl (SystemExit 1)"
     "calls (snd (run_groups scenario_a_env ex_args ex_context [(''dir98'', scenario_a_dwis)]
                 (ex_world (scenario_files None)))) = []" by (simp_all add: scenario_a_dwis_def)
  from p1 p2 p3 show ?thesis by blast
qed

text \<open>
  Claim C4 as stated puts the exit before any call of the synthesis tool, for every group.
  With the groups \<^verbatim>\<open>dir98\<close>, whose sidecar has a readout time, and \<^verbatim>\<open>dir99\<close>, whose
  sidecar has none, and no override, the run exits with status 1 after \<^verbatim>\<open>fslroi\<close> and the
  container have run for \<^verbatim>\<open>dir98\<close> and its field map has been written.
\<close>

theorem exit_after_earlier_synthesis_counterexample:
  "fst (main (ex_env scenario_d_dwis (\<lambda>p. Some (Other ''b0''))) ex_args (ex_world mixed_files))
     = Inl (SystemExit 1) \<and>
   calls (snd (main (ex_env scenario_d_dwis (\<lambda>p. Some (Other ''b0''))) ex_args (ex_world mixed_files)))
     = [Fslroi ''/data/sub-01/ses-1/dwi/sub-01_ses-1_acq-dir98_run-1_dwi.nii.gz''
               ''/scratch/bids-synb0.x/dir98_synb0_input/b0.nii.gz'',
        Singularity [''singularity'', ''run'', ''--cleanenv'', ''--no-home'',
                     ''-B'', ''/scratch/bids-synb0.x/dir98_synb0_input:/INPUTS'',
                     ''-B'', ''/scratch/bids-synb0.x/dir98_synb0_output:/OUTPUTS'',
                     ''-B'', ''/scratch/bids-synb0.x/dir98_synb0_tmpdir:/tmp'',
                     ''synb0.sif'', ''--notopup'']] \<and>
   other_content (files (snd (main (ex_env scenario_d_dwis (\<lambda>p. Some (Other ''b0''))) ex_args
                                (ex_world mixed_files))))
     ''/data/sub-01/ses-1/fmap/sub-01_ses-1_acq-dir98synb0_dir-AP_epi.nii.gz'' = Some ''b0_u''"
  by code_simp

lemma insert_total_readout_time_raises:
  assumes "open_json (files w) (sidecar_of (path dwi_ref)) = Inr sidecar"
  shows "\<exists>w'. insert_total_readout_time dwi_ref (JStr t) dwi_image w
                 = (Inl (case fmap_sidecar_var w of None \<Rightarrow> NameError ''fmap_sidecar''
                         | Some d \<Rightarrow> ValueError), w') \<and>
              files w' = (files w)(sidecar_of (path dwi_ref) \<mapsto> Other []) \<and>
              calls w' = calls w"
  using assms
  by (auto simp: insert_total_readout_time_def str_plus_def Let_def split: option.splits)

lemma dwi_needs_total_readout_time_raises:
  assumes "open_json (files w) (sidecar_of (path dwi_ref)) = Inr sidecar"
  shows "\<exists>w'. dwi_needs_total_readout_time (dwi_image # rest) dwi_ref (JStr t) w
                 = (Inl (case fmap_sidecar_var w of None \<Rightarrow> NameError ''fmap_sidecar''
                         | Some d \<Rightarrow> ValueError), w') \<and>
              files w' = (files w)(sidecar_of (path dwi_ref) \<mapsto> Other []) \<and>
              calls w' = calls w"
proof -
  from insert_total_readout_time_raises[OF assms, of t dwi_image]
  obtain w' where "insert_total_readout_time dwi_ref (JStr t) dwi_image w
                 = (Inl (case fmap_sidecar_var w of None \<Rightarrow> NameError ''fmap_sidecar''
                         | Some d \<Rightarrow> ValueError), w')"
     "files w' = (files w)(sidecar_of (path dwi_ref) \<mapsto> Other [])" "calls w' = calls w"
    by blast
  then show ?thesis by (simp add: and_then_def)
qed

lemma override_is_never_inserted:
  assumes pe: "\<forall>img \<in> set (dwi_ref # rest). pe_of (files w) img = Some (JStr pe)"
      and ref: "open_json (files w) (sidecar_of (path dwi_ref)) = Inr sidecar"
      and none: "sidecar ''TotalReadoutTime'' = None"
      and arg: "total_readout_time_arg A = Some t"
  shows "\<exists>w'. run_groups E A C ((grp, dwi_ref # rest) # gs) w
                 = (Inl (case fmap_sidecar_var w of None \<Rightarrow> NameError ''fmap_sidecar''
                         | Some d \<Rightarrow> ValueError), w') \<and>
              files w' = (files w)(sidecar_of (path dwi_ref) \<mapsto> Other []) \<and>
              calls w' = calls w"
proof -
  from process_group_consistent[OF pe, of E A C grp]
  obtain w2 where w2: "process_group E A C (grp, dwi_ref # rest) w
                 = synthesize E A C grp (dwi_ref # rest) dwi_ref pe w2"
     "files w2 = files w" "calls w2 = calls w" "fmap_sidecar_var w2 = fmap_sidecar_var w"
    by blast
  define w3 where "w3 = py_print (''No total readout time in sidecar for '' @ path dwi_ref) w2"
  have fr3: "files w3 = files w" "calls w3 = calls w" "fmap_sidecar_var w3 = fmap_sidecar_var w"
    using w2 by (simp_all add: w3_def)
  from ref w2(2) have ref2: "open_json (files w2) (sidecar_of (path dwi_ref)) = Inr sidecar" by simp
  have trt: "total_readout_time A dwi_ref w2 = (Inr (JStr t, True), w3)"
    unfolding w3_def using ref2 none arg by (rule total_readout_time_override)
  from ref fr3 have ref3: "open_json (files w3) (sidecar_of (path dwi_ref)) = Inr sidecar" by simp
  from dwi_needs_total_readout_time_raises[OF ref3, of dwi_ref rest t]
  obtain w' where w': "dwi_needs_total_readout_time (dwi_ref # rest) dwi_ref (JStr t) w3
                 = (Inl (case fmap_sidecar_var w3 of None \<Rightarrow> NameError ''fmap_sidecar''
                         | Some d \<Rightarrow> ValueError), w')"
     "files w' = (files w3)(sidecar_of (path dwi_ref) \<mapsto> Other [])" "calls w' = calls w3"
    by blast
  have syn: "synthesize E A C grp (dwi_ref # rest) dwi_ref pe w2
           = (Inl (case fmap_sidecar_var w of None \<Rightarrow> NameError ''fmap_sidecar''
                         | Some d \<Rightarrow> ValueError), w')"
    using trt w'(1) fr3 by (simp add: synthesize_def and_then_def)
  have "run_groups E A C ((grp, dwi_ref # rest) # gs) w
          = (Inl (case fmap_sidecar_var w of None \<Rightarrow> NameError ''fmap_sidecar''
                         | Some d \<Rightarrow> ValueError), w')"
    using run_groups_abort[of E A C "(grp, dwi_ref # rest)" w _ gs] w2(1) syn by simp
  with w' fr3 show ?thesis by auto
qed

text \<open>
  Claim C5. The override is to be written into the sidecar of every image of the group.
  The loop of lines 262 to 269 writes it into none: it opens the reference image's sidecar
  for every image, empties it, and raises at \<^verbatim>\<open>json.dump(fmap_sidecar, fmap_sidecar_fh)\<close>
  (\<open>override_is_never_inserted\<close>). In scenario A without readout times and with
  \<^verbatim>\<open>-t 0.05\<close>, the run ends with \<^verbatim>\<open>NameError\<close>, the first sidecar is empty, the second has
  no \<^verbatim>\<open>TotalReadoutTime\<close>, and nothing was run.
\<close>

theorem override_insertion_raises:
  "fst (main scenario_a_env (ex_args\<lparr>total_readout_time_arg := Some ''0.05''\<rparr>)
          (ex_world (scenario_files None))) = Inl (NameError ''fmap_sidecar'') \<and>
   other_content (files (snd (main scenario_a_env (ex_args\<lparr>total_readout_time_arg := Some ''0.05''\<rparr>)
          (ex_world (scenario_files None)))))
     ''/data/sub-01/ses-1/dwi/sub-01_ses-1_acq-dir98_run-1_dwi.json'' = Some [] \<and>
   sidecar_field (files (snd (main scenario_a_env (ex_args\<lparr>total_readout_time_arg := Some ''0.05''\<rparr>)
          (ex_world (scenario_files None)))))
     ''/data/sub-01/ses-1/dwi/sub-01_ses-1_acq-dir98_run-2_dwi.json'' ''TotalReadoutTime''
     = Inr None \<and>
   calls (snd (main scenario_a_env (ex_args\<lparr>total_readout_time_arg := Some ''0.05''\<rparr>)
          (ex_world (scenario_files None)))) = []"
  by code_simp

section \<open>The reference volume: properties\<close>

lemma b0_input_missing:
  assumes "fslroi_out E (files w) (path dwi_ref) = None"
      and "files w (os_path_join (tmp_input_dir C grp) [''b0.nii.gz'']) = None"
  shows "b0_input E C grp dwi_ref w
           = (Inl (SystemExit 1),
              py_print (''Could not extract b0 image from '' @ path dwi_ref)
                (w\<lparr>calls := calls w @ [Fslroi (path dwi_ref)
                                        (os_path_join (tmp_input_dir C grp) [''b0.nii.gz''])]\<rparr>))"
  using assms by (simp add: b0_input_def Let_def)

text \<open>
  Claim C9, as the code has it. When \<^verbatim>\<open>fslroi\<close> leaves no file at the staged path, the
  script finds that out by looking for the file, prints that it could not extract the
  image, and the whole run ends with \<^verbatim>\<open>sys.exit(1)\<close>: the groups that follow are not
  processed.
\<close>

theorem missing_b0_exits:
  assumes pe: "\<forall>img \<in> set (dwi_ref # rest). pe_of (files w) img = Some (JStr pe)"
      and ref: "open_json (files w) (sidecar_of (path dwi_ref)) = Inr sidecar"
      and trt: "sidecar ''TotalReadoutTime'' = Some v"
      and tool: "fslroi_out E (files w) (path dwi_ref) = None"
      and absent: "files w (os_path_join (tmp_input_dir C grp) [''b0.nii.gz'']) = None"
  shows "\<exists>w'. run_groups E A C ((grp, dwi_ref # rest) # gs) w = (Inl (SystemExit 1), w') \<and>
              calls w' = calls w @ [Fslroi (path dwi_ref)
                                      (os_path_join (tmp_input_dir C grp) [''b0.nii.gz''])] \<and>
              files w' = files w \<and>
              last (stdout w') = ''Could not extract b0 image from '' @ path dwi_ref"
proof -
  from process_group_consistent[OF pe, of E A C grp]
  obtain w2 where w2: "process_group E A C (grp, dwi_ref # rest) w
                 = synthesize E A C grp (dwi_ref # rest) dwi_ref pe w2"
     "files w2 = files w" "calls w2 = calls w"
    by blast
  from ref w2(2) have ref2: "open_json (files w2) (sidecar_of (path dwi_ref)) = Inr sidecar" by simp
  have t: "total_readout_time A dwi_ref w2 = (Inr (v, False), w2)"
    using ref2 trt by (rule total_readout_time_sidecar)
  define b0 where "b0 = os_path_join (tmp_input_dir C grp) [''b0.nii.gz'']"
  define w' where "w' = py_print (''Could not extract b0 image from '' @ path dwi_ref)
                (w2\<lparr>calls := calls w2 @ [Fslroi (path dwi_ref) b0]\<rparr>)"
  have b: "b0_input E C grp dwi_ref w2 = (Inl (SystemExit 1), w')"
    unfolding w'_def b0_def using tool absent w2(2) by (intro b0_input_missing) simp_all
  have syn: "synthesize E A C grp (dwi_ref # rest) dwi_ref pe w2 = (Inl (SystemExit 1), w')"
    using t b by (simp add: synthesize_def and_then_def)
  have "run_groups E A C ((grp, dwi_ref # rest) # gs) w = (Inl (SystemExit 1), w')"
    using run_groups_abort[of E A C "(grp, dwi_ref # rest)" w _ gs] w2(1) syn by simp
  moreover have "calls w' = calls w @ [Fslroi (path dwi_ref) b0]" "files w' = files w"
    "last (stdout w') = ''Could not extract b0 image from '' @ path dwi_ref"
    using w2 by (simp_all add: w'_def)
  ultimately show ?thesis unfolding b0_def by blast
qed

lemma scenario_d_ref:
  "sidecar_field (files (ex_world (scenario_files (Some (JNum (1 / 20))))))
     (sidecar_of (path scenario_a_ref)) ''TotalReadoutTime'' = Inr (Some (JNum (1 / 20)))"
  "sidecar_field (files (ex_world (scenario_files (Some (JNum (1 / 20))))))
     (os_path_join (tmp_input_dir ex_context ''dir98'') [''b0.nii.gz'']) ''x''
     = Inl (FileNotFoundError ''/scratch/bids-synb0.x/dir98_synb0_input/b0.nii.gz'')"
  by code_simp+

lemma scenario_d_tool:
  "fslroi_out (scenario_d_env scenario_d_dwis) (files (ex_world (scenario_files (Some (JNum (1 / 20))))))
     (path scenario_a_ref) = None"
  by (simp add: scenario_d_env_def ex_env_def roi_fails_for_def scenario_a_ref_def ex_dwi_def)

theorem missing_b0_exits_witness:
  "fst (run_groups (scenario_d_env scenario_d_dwis) ex_args ex_context
          [(''dir98'', [scenario_a_ref]), (''dir99'', [scenario_d_dir99])]
          (ex_world (scenario_files (Some (JNum (1 / 20)))))) = Inl (SystemExit 1) \<and>
   calls (snd (run_groups (scenario_d_env scenario_d_dwis) ex_args ex_context
          [(''dir98'', [scenario_a_ref]), (''dir99'', [scenario_d_dir99])]
          (ex_world (scenario_files (Some (JNum (1 / 20)))))))
     = [Fslroi (path scenario_a_ref)
          (os_path_join (tmp_input_dir ex_context ''dir98'') [''b0.nii.gz''])]"
proof -
  define W where "W = ex_world (scenario_files (Some (JNum (1 / 20))))"
  from sidecar_fieldD[OF scenario_d_ref(1)] obtain d where
    d: "open_json (files W) (sidecar_of (path scenario_a_ref)) = Inr d"
        "d ''TotalReadoutTime'' = Some (JNum (1 / 20))" unfolding W_def by blast
  have absent: "files W (os_path_join (tmp_input_dir ex_context ''dir98'') [''b0.nii.gz'']) = None"
    unfolding W_def using scenario_d_ref(2) by (rule sidecar_field_absent)
  have c0: "calls W = []" by (simp add: ex_world_def W_def)
  have pe: "\<forall>img \<in> set (scenario_a_ref # []). pe_of (files W) img = Some (JStr ''j'')"
    using scenario_pe(1) by (simp add: W_def)
  from missing_b0_exits[OF pe d scenario_d_tool[folded W_def] absent,
         where A = ex_args and gs = "[(''dir99'', [scenario_d_dir99])]"]
  obtain w' where w': "run_groups (scenario_d_env scenario_d_dwis) ex_args ex_context
          ((''dir98'', [scenario_a_ref]) # [(''dir99'', [scenario_d_dir99])]) W
          = (Inl (SystemExit 1), w')"
     "calls w' = calls W @ [Fslroi (path scenario_a_ref)
          (os_path_join (tmp_input_dir ex_context ''dir98'') [''b0.nii.gz''])]"
    by blast
  have "fst (run_groups (scenario_d_env scenario_d_dwis) ex_args ex_context
          [(''dir98'', [scenario_a_ref]), (''dir99'', [scenario_d_dir99])] W) = Inl (SystemExit 1)"
    by (simp only: w'(1) fst_conv)
  moreover have "calls (snd (run_groups (scenario_d_env scenario_d_dwis) ex_args ex_context
          [(''dir98'', [scenario_a_ref]), (''dir99'', [scenario_d_dir99])] W))
     = [Fslroi (path scenario_a_ref)
          (os_path_join (tmp_input_dir ex_context ''dir98'') [''b0.nii.gz''])]"
    by (simp only: w'(1) snd_conv w'(2) c0 append_Nil)
  ultimately show ?thesis unfolding W_def by (rule conjI)
qed

text \<open>
  Claim C9 as stated lets the remaining groups continue. With the groups \<^verbatim>\<open>dir98\<close> and
  \<^verbatim>\<open>dir99\<close> and an \<^verbatim>\<open>fslroi\<close> that fails for the first only, the run exits with status 1
  after that one call and writes no field map for \<^verbatim>\<open>dir99\<close>, which the same run without
  the first group does write.
\<close>

theorem whole_run_exits_counterexample:
  "fst (main (scenario_d_env scenario_d_dwis) ex_args (ex_world (scenario_files (Some (JNum (1 / 20))))))
     = Inl (SystemExit 1) \<and>
   calls (snd (main (scenario_d_env scenario_d_dwis) ex_args
                 (ex_world (scenario_files (Some (JNum (1 / 20)))))))
     = [Fslroi ''/data/sub-01/ses-1/dwi/sub-01_ses-1_acq-dir98_run-1_dwi.nii.gz''
               ''/scratch/bids-synb0.x/dir98_synb0_input/b0.nii.gz''] \<and>
   other_content (files (snd (main (scenario_d_env scenario_d_dwis) ex_args
                                (ex_world (scenario_files (Some (JNum (1 / 20))))))))
     ''/data/sub-01/ses-1/fmap/sub-01_ses-1_acq-dir99synb0_dir-AP_epi.nii.gz'' = None \<and>
   fst (main (scenario_d_env [scenario_d_dir99]) ex_args
          (ex_world (scenario_files (Some (JNum (1 / 20)))))) = Inr () \<and>
   other_content (files (snd (main (scenario_d_env [scenario_d_dir99]) ex_args
                                (ex_world (scenario_files (Some (JNum (1 / 20))))))))
     ''/data/sub-01/ses-1/fmap/sub-01_ses-1_acq-dir99synb0_dir-AP_epi.nii.gz'' = Some ''b0_u''"
  by code_simp

section \<open>The sidecar of the field map: properties\<close>

lemma total_readout_time_files:
  "total_readout_time A dwi_ref w = (r, w') \<Longrightarrow> files w' = files w"
  by (auto simp: total_readout_time_def Let_def split: sum.splits option.splits)

lemma insert_total_readout_time_fails:
  "insert_total_readout_time dwi_ref trt dwi_image w \<noteq> (Inr u, w')"
  by (auto simp: insert_total_readout_time_def Let_def split: sum.splits option.splits)

lemma dwi_needs_total_readout_time_ok:
  "dwi_needs_total_readout_time imgs dwi_ref trt w = (Inr u, w') \<Longrightarrow> w' = w"
proof (cases imgs)
  case Nil
  then show "dwi_needs_total_readout_time imgs dwi_ref trt w = (Inr u, w') \<Longrightarrow> w' = w" by simp
next
  case (Cons i rest)
  assume run: "dwi_needs_total_readout_time imgs dwi_ref trt w = (Inr u, w')"
  obtain r w1 where s: "insert_total_readout_time dwi_ref trt i w = (r, w1)" by force
  with insert_total_readout_time_fails[of dwi_ref trt i w] obtain e where "r = Inl e"
    by (cases r) auto
  with run Cons s show "w' = w" by (simp add: and_then_def)
qed

lemma b0_input_files:
  "b0_input E C grp dwi_ref w = (Inr u, w') \<Longrightarrow>
   p \<noteq> os_path_join (tmp_input_dir C grp) [''b0.nii.gz''] \<Longrightarrow> files w' p = files w p"
  by (auto simp: b0_input_def Let_def split: if_splits option.splits)

lemma shutil_copy_files:
  "shutil_copy src dst w = (Inr u, w') \<Longrightarrow>
   src \<noteq> dst \<and> (\<exists>f. files w src = Some f \<and> w' = w\<lparr>files := (files w)(dst \<mapsto> f)\<rparr>)"
  by (auto simp: shutil_copy_def split: option.splits if_splits)

lemma acqparams_files:
  assumes "acqparams E C grp pe trt w = (Inr u, w')"
      and "p \<noteq> os_path_join (tmp_input_dir C grp) [''T1.nii.gz'']"
      and "p \<noteq> os_path_join (tmp_input_dir C grp) [''acqparams.txt'']"
  shows "files w' p = files w p"
proof -
  obtain r w1 where c: "shutil_copy (case t1w_skull_stripped_path C of Some p \<Rightarrow> p | None \<Rightarrow> t1w_path C)
       (os_path_join (tmp_input_dir C grp) [''T1.nii.gz'']) w = (r, w1)" by force
  with assms(1) obtain u1 where r: "r = Inr u1"
    by (cases r) (auto simp: acqparams_def Let_def and_then_def)
  from shutil_copy_files[OF c[unfolded r]] assms(2) have f1: "files w1 p = files w p" by auto
  from assms(1) c r assms(3) have "files w' p = files w1 p"
    by (auto simp: acqparams_def Let_def and_then_def split: option.splits)
  with f1 show ?thesis by simp
qed

lemma synb0_run_files:
  "synb0_run E A C grp w = (Inr u, w') \<Longrightarrow>
   p \<noteq> os_path_join (tmp_output_dir C grp) [''b0_u.nii.gz''] \<Longrightarrow> files w' p = files w p"
  by (auto simp: synb0_run_def Let_def split: if_splits option.splits)

lemma fmap_volume_files:
  "fmap_volume A C grp name w = (Inr u, w') \<Longrightarrow>
   p \<noteq> os_path_join (output_dir A) [name] \<Longrightarrow> files w' p = files w p"
  by (auto simp: fmap_volume_def dest!: shutil_copy_files)

lemma fmap_sidecar_ok:
  assumes "fmap_sidecar A imgs ref_file name fped w = (Inr u, w')"
  shows "\<exists>ref. open_json (files w) ref_file = Inr ref \<and>
           open_json (files w') (os_path_join (output_dir A) [str_replace ''.nii.gz'' ''.json'' name])
             = Inr (fmap_sidecar_fields A imgs fped ref)"
proof -
  define out where "out = os_path_join (output_dir A) [str_replace ''.nii.gz'' ''.json'' name]"
  obtain r w1 where c: "shutil_copy ref_file out w = (r, w1)" by force
  with assms obtain u1 where r: "r = Inr u1"
    by (cases r) (auto simp: fmap_sidecar_def Let_def and_then_def out_def)
  from shutil_copy_files[OF c[unfolded r]]
  obtain f where f: "files w ref_file = Some f" "w1 = w\<lparr>files := (files w)(out \<mapsto> f)\<rparr>" by auto
  from assms c r f obtain ref where ref: "f = JsonFile ref"
    by (cases f) (auto simp: fmap_sidecar_def Let_def and_then_def out_def[symmetric] open_json_def)
  from assms c r f ref
  have "files w' out = Some (JsonFile (fmap_sidecar_fields A imgs fped ref))"
    by (auto simp: fmap_sidecar_def Let_def and_then_def out_def[symmetric] open_json_def)
  with f ref show ?thesis by (auto simp: open_json_def out_def)
qed

lemma fmap_sidecar_fields_values:
  "fmap_sidecar_fields A imgs fped ref ''IntendedFor'' = Some (fmap_intended_files A imgs)"
  "fmap_sidecar_fields A imgs fped ref ''PhaseEncodingDirection'' = Some (JStr fped)"
  "fmap_sidecar_fields A imgs fped ref ''TotalReadoutTime'' = Some (JNum (1 / 10000000))"
  "fmap_sidecar_fields A imgs fped ref ''EffectiveEchoSpacing'' = Some (JNum 0)"
  by (simp_all add: fmap_sidecar_fields_def)

lemma fmap_sidecar_fields_others:
  "k \<notin> {''IntendedFor'', ''PhaseEncodingDirection'', ''TotalReadoutTime'', ''EffectiveEchoSpacing''}
   \<Longrightarrow> fmap_sidecar_fields A imgs fped ref k = ref k"
  by (simp add: fmap_sidecar_fields_def)

lemma and_then_Inr:
  "and_then m f = (Inr y, w') \<Longrightarrow> \<exists>x w1. m = (Inr x, w1) \<and> f x w1 = (Inr y, w')"
  by (cases m) (auto simp: and_then_def split: sum.splits)

lemma and_then_pure:
  "and_then (r, w) f = (Inr y, w') \<Longrightarrow> \<exists>x. r = Inr x \<and> f x w = (Inr y, w')"
  by (cases r) (auto simp: and_then_def)

lemma synthesize_ok:
  assumes run: "synthesize E A C grp imgs dwi_ref pe w = (Inr (), w')"
      and apart: "sidecar_of (path dwi_ref) \<notin> staged_paths A C grp pe"
  shows "\<exists>ref fped label.
           open_json (files w) (sidecar_of (path dwi_ref)) = Inr ref \<and>
           fmap_phase_encode_dir pe = Inr fped \<and> phase_encode_labels fped = Some label \<and>
           open_json (files w')
             (os_path_join (output_dir A)
                [str_replace ''.nii.gz'' ''.json'' (fmap_file_name A grp label)])
             = Inr (fmap_sidecar_fields A imgs fped ref)"
proof -
  define rf where "rf = sidecar_of (path dwi_ref)"
  from run[unfolded synthesize_def] obtain tn w1 where
    s1: "total_readout_time A dwi_ref w = (Inr tn, w1)" and
    r1: "(case tn of (trt, needs) \<Rightarrow> \<lambda>w1.
      and_then (if needs then dwi_needs_total_readout_time imgs dwi_ref trt w1 else (Inr (), w1)) (\<lambda>u w2.
      and_then (b0_input E C grp dwi_ref w2) (\<lambda>u w3.
      and_then (acqparams E C grp pe trt w3) (\<lambda>u w4.
      and_then (synb0_run E A C grp w4) (\<lambda>u w5.
      and_then (fmap_phase_encode_dir pe, w5) (\<lambda>fped w6.
      and_then (fmap_phase_encode_label fped, w6) (\<lambda>label w7.
      and_then (fmap_volume A C grp (fmap_file_name A grp label) w7) (\<lambda>u w8.
        fmap_sidecar A imgs (sidecar_of (path dwi_ref)) (fmap_file_name A grp label) fped w8)))))))) w1
      = (Inr (), w')"
    by (blast dest: and_then_Inr)
  obtain trt needs where tn: "tn = (trt, needs)" by (cases tn)
  from r1[unfolded tn, simplified] obtain u2 w2 where
    s2: "(if needs then dwi_needs_total_readout_time imgs dwi_ref trt w1 else (Inr (), w1)) = (Inr u2, w2)" and
    r2: "and_then (b0_input E C grp dwi_ref w2) (\<lambda>u w3.
      and_then (acqparams E C grp pe trt w3) (\<lambda>u w4.
      and_then (synb0_run E A C grp w4) (\<lambda>u w5.
      and_then (fmap_phase_encode_dir pe, w5) (\<lambda>fped w6.
      and_then (fmap_phase_encode_label fped, w6) (\<lambda>label w7.
      and_then (fmap_volume A C grp (fmap_file_name A grp label) w7) (\<lambda>u w8.
        fmap_sidecar A imgs (sidecar_of (path dwi_ref)) (fmap_file_name A grp label) fped w8))))))
      = (Inr (), w')"
    by (blast dest: and_then_Inr)
  from r2 obtain u3 w3 where
    s3: "b0_input E C grp dwi_ref w2 = (Inr u3, w3)" and
    r3: "and_then (acqparams E C grp pe trt w3) (\<lambda>u w4.
      and_then (synb0_run E A C grp w4) (\<lambda>u w5.
      and_then (fmap_phase_encode_dir pe, w5) (\<lambda>fped w6.
      and_then (fmap_phase_encode_label fped, w6) (\<lambda>label w7.
      and_then (fmap_volume A C grp (fmap_file_name A grp label) w7) (\<lambda>u w8.
        fmap_sidecar A imgs (sidecar_of (path dwi_ref)) (fmap_file_name A grp label) fped w8)))))
      = (Inr (), w')"
    by (blast dest: and_then_Inr)
  from r3 obtain u4 w4 where
    s4: "acqparams E C grp pe trt w3 = (Inr u4, w4)" and
    r4: "and_then (synb0_run E A C grp w4) (\<lambda>u w5.
      and_then (fmap_phase_encode_dir pe, w5) (\<lambda>fped w6.
      and_then (fmap_phase_encode_label fped, w6) (\<lambda>label w7.
      and_then (fmap_volume A C grp (fmap_file_name A grp label) w7) (\<lambda>u w8.
        fmap_sidecar A imgs (sidecar_of (path dwi_ref)) (fmap_file_name A grp label) fped w8))))
      = (Inr (), w')"
    by (blast dest: and_then_Inr)
  from r4 obtain u5 w5 where
    s5: "synb0_run E A C grp w4 = (Inr u5, w5)" and
    r5: "and_then (fmap_phase_encode_dir pe, w5) (\<lambda>fped w6.
      and_then (fmap_phase_encode_label fped, w6) (\<lambda>label w7.
      and_then (fmap_volume A C grp (fmap_file_name A grp label) w7) (\<lambda>u w8.
        fmap_sidecar A imgs (sidecar_of (path dwi_ref)) (fmap_file_name A grp label) fped w8)))
      = (Inr (), w')"
    by (blast dest: and_then_Inr)
  from r5 obtain fped where
    s6: "fmap_phase_encode_dir pe = Inr fped" and
    r6: "and_then (fmap_phase_encode_label fped, w5) (\<lambda>label w7.
      and_then (fmap_volume A C grp (fmap_file_name A grp label) w7) (\<lambda>u w8.
        fmap_sidecar A imgs (sidecar_of (path dwi_ref)) (fmap_file_name A grp label) fped w8))
      = (Inr (), w')"
    by (blast dest: and_then_pure)
  from r6 obtain label where
    s7: "fmap_phase_encode_label fped = Inr label" and
    r7: "and_then (fmap_volume A C grp (fmap_file_name A grp label) w5) (\<lambda>u w8.
        fmap_sidecar A imgs (sidecar_of (path dwi_ref)) (fmap_file_name A grp label) fped w8)
      = (Inr (), w')"
    by (blast dest: and_then_pure)
  from r7 obtain u8 w8 where
    s8: "fmap_volume A C grp (fmap_file_name A grp label) w5 = (Inr u8, w8)" and
    r8: "fmap_sidecar A imgs (sidecar_of (path dwi_ref)) (fmap_file_name A grp label) fped w8
      = (Inr (), w')"
    by (blast dest: and_then_Inr)
  from s7 have lab: "phase_encode_labels fped = Some label"
    by (auto simp: fmap_phase_encode_label_def split: option.splits)
  from apart s6 lab have ne:
    "rf \<noteq> os_path_join (tmp_input_dir C grp) [''b0.nii.gz'']"
    "rf \<noteq> os_path_join (tmp_input_dir C grp) [''T1.nii.gz'']"
    "rf \<noteq> os_path_join (tmp_input_dir C grp) [''acqparams.txt'']"
    "rf \<noteq> os_path_join (tmp_output_dir C grp) [''b0_u.nii.gz'']"
    "rf \<noteq> os_path_join (output_dir A) [fmap_file_name A grp label]"
    by (simp_all add: staged_paths_def rf_def)
  have f1: "files w1 = files w" using s1 by (rule total_readout_time_files)
  have f2: "files w2 = files w1"
    using s2 dwi_needs_total_readout_time_ok[of imgs dwi_ref trt w1 u2 w2]
    by (auto split: if_splits)
  have f3: "files w3 rf = files w2 rf" using s3 ne(1) by (rule b0_input_files)
  have f4: "files w4 rf = files w3 rf" using s4 ne(2,3) by (rule acqparams_files)
  have f5: "files w5 rf = files w4 rf" using s5 ne(4) by (rule synb0_run_files)
  have f8: "files w8 rf = files w5 rf" using s8 ne(5) by (rule fmap_volume_files)
  have same: "open_json (files w8) rf = open_json (files w) rf"
    using f1 f2 f3 f4 f5 f8 by (simp add: open_json_def)
  from fmap_sidecar_ok[OF r8] obtain ref where ref:
    "open_json (files w8) (sidecar_of (path dwi_ref)) = Inr ref"
    "open_json (files w')
       (os_path_join (output_dir A) [str_replace ''.nii.gz'' ''.json'' (fmap_file_name A grp label)])
       = Inr (fmap_sidecar_fields A imgs fped ref)"
    by blast
  from ref(1) same have "open_json (files w) (sidecar_of (path dwi_ref)) = Inr ref"
    by (simp add: rf_def)
  with ref(2) s6 lab show ?thesis by blast
qed

text \<open>
  Claim C7. When a group with one direction \<open>pe\<close> has been processed to the end, and the
  reference image's sidecar is none of the files staged on the way, the sidecar written
  beside the field map is the reference image's sidecar with four fields set:
  \<^verbatim>\<open>IntendedFor\<close> to the path of every image of the group under the session,
  \<^verbatim>\<open>PhaseEncodingDirection\<close> to the inverted direction, \<^verbatim>\<open>TotalReadoutTime\<close> to the
  constant 0.0000001 and \<^verbatim>\<open>EffectiveEchoSpacing\<close> to 0. Every other field is as in the
  reference image's sidecar.
\<close>

theorem fmap_sidecar_overwrites_four_fields:
  assumes pe: "\<forall>img \<in> set (dwi_ref # rest). pe_of (files w) img = Some (JStr pe)"
      and run: "process_group E A C (grp, dwi_ref # rest) w = (Inr (), w')"
      and apart: "sidecar_of (path dwi_ref) \<notin> staged_paths A C grp pe"
  shows "\<exists>ref out fped label.
           open_json (files w) (sidecar_of (path dwi_ref)) = Inr ref \<and>
           fmap_phase_encode_dir pe = Inr fped \<and> phase_encode_labels fped = Some label \<and>
           open_json (files w')
             (os_path_join (output_dir A)
                [str_replace ''.nii.gz'' ''.json'' (fmap_file_name A grp label)]) = Inr out \<and>
           out ''IntendedFor''
             = Some (JArr (map (\<lambda>f. JStr (os_path_join (''ses-'' @ session_label A)
                                              [''dwi'', filename f])) (dwi_ref # rest))) \<and>
           out ''PhaseEncodingDirection'' = Some (JStr fped) \<and>
           out ''TotalReadoutTime'' = Some (JNum (1 / 10000000)) \<and>
           out ''EffectiveEchoSpacing'' = Some (JNum 0) \<and>
           (\<forall>k. k \<notin> {''IntendedFor'', ''PhaseEncodingDirection'', ''TotalReadoutTime'',
                      ''EffectiveEchoSpacing''} \<longrightarrow> out k = ref k)"
proof -
  from process_group_consistent[OF pe, of E A C grp]
  obtain w2 where w2: "process_group E A C (grp, dwi_ref # rest) w
                 = synthesize E A C grp (dwi_ref # rest) dwi_ref pe w2"
     "files w2 = files w" by blast
  with run have syn: "synthesize E A C grp (dwi_ref # rest) dwi_ref pe w2 = (Inr (), w')" by simp
  from synthesize_ok[OF syn apart] w2(2)
  obtain ref fped label where r:
    "open_json (files w) (sidecar_of (path dwi_ref)) = Inr ref"
    "fmap_phase_encode_dir pe = Inr fped" "phase_encode_labels fped = Some label"
    "open_json (files w')
       (os_path_join (output_dir A) [str_replace ''.nii.gz'' ''.json'' (fmap_file_name A grp label)])
       = Inr (fmap_sidecar_fields A (dwi_ref # rest) fped ref)"
    by auto
  show ?thesis
    apply (rule exI[of _ ref], rule exI[of _ "fmap_sidecar_fields A (dwi_ref # rest) fped ref"],
           rule exI[of _ fped], rule exI[of _ label])
    using r fmap_sidecar_fields_values[of A "dwi_ref # rest" fped ref]
      fmap_sidecar_fields_others[of _ A "dwi_ref # rest" fped ref]
    by (simp add: fmap_intended_files_def)
qed

lemma scenario_a_process:
  "fst (process_group scenario_a_env ex_args ex_context (''dir98'', [scenario_a_ref, scenario_a_run2])
          (ex_world (scenario_files (Some (JNum (1 / 20)))))) = Inr ()"
  "fmap_phase_encode_dir ''j'' = Inr ''j-''" "phase_encode_labels ''j-'' = Some ''AP''"
  "os_path_join (output_dir ex_args)
     [str_replace ''.nii.gz'' ''.json'' (fmap_file_name ex_args ''dir98'' ''AP'')]
     = ''/data/sub-01/ses-1/fmap/sub-01_ses-1_acq-dir98synb0_dir-AP_epi.json''"
  by code_simp+

lemma scenario_a_apart:
  "sidecar_of (path scenario_a_ref) \<notin> staged_paths ex_args ex_context ''dir98'' ''j''"
  by (simp add: staged_paths_def scenario_a_process sidecar_of_def scenario_a_ref_def ex_dwi_def
        tmp_input_dir_def tmp_output_dir_def os_path_join_def path_join2_def ex_context_def
        output_dir_def ex_args_def fmap_file_name_def)

theorem fmap_sidecar_overwrites_four_fields_witness:
  "\<exists>ref out.
     open_json (files (ex_world (scenario_files (Some (JNum (1 / 20))))))
       (sidecar_of (path scenario_a_ref)) = Inr ref \<and>
     open_json (files (snd (process_group scenario_a_env ex_args ex_context
                              (''dir98'', [scenario_a_ref, scenario_a_run2])
                              (ex_world (scenario_files (Some (JNum (1 / 20))))))))
       ''/data/sub-01/ses-1/fmap/sub-01_ses-1_acq-dir98synb0_dir-AP_epi.json'' = Inr out \<and>
     out ''PhaseEncodingDirection'' = Some (JStr ''j-'') \<and>
     out ''TotalReadoutTime'' = Some (JNum (1 / 10000000)) \<and>
     out ''EffectiveEchoSpacing'' = Some (JNum 0) \<and>
     out ''EchoTime'' = ref ''EchoTime''"
proof -
  define W where "W = ex_world (scenario_files (Some (JNum (1 / 20))))"
  define W' where "W' = snd (process_group scenario_a_env ex_args ex_context
                               (''dir98'', [scenario_a_ref, scenario_a_run2]) W)"
  have "fst (process_group scenario_a_env ex_args ex_context
               (''dir98'', [scenario_a_ref, scenario_a_run2]) W) = Inr ()"
    unfolding W_def by (rule scenario_a_process(1))
  then have run: "process_group scenario_a_env ex_args ex_context
               (''dir98'', scenario_a_ref # [scenario_a_run2]) W = (Inr (), W')"
    unfolding W'_def by (rule result_from_fst)
  have pe: "\<forall>img \<in> set (scenario_a_ref # [scenario_a_run2]). pe_of (files W) img = Some (JStr ''j'')"
    unfolding W_def using scenario_pe[of "Some (JNum (1 / 20))"] by simp
  from fmap_sidecar_overwrites_four_fields[OF pe run scenario_a_apart]
  obtain ref out fped label where r:
    "open_json (files W) (sidecar_of (path scenario_a_ref)) = Inr ref \<and>
     fmap_phase_encode_dir ''j'' = Inr fped \<and> phase_encode_labels fped = Some label \<and>
     open_json (files W') (os_path_join (output_dir ex_args)
        [str_replace ''.nii.gz'' ''.json'' (fmap_file_name ex_args ''dir98'' label)]) = Inr out \<and>
     out ''IntendedFor''
             = Some (JArr (map (\<lambda>f. JStr (os_path_join (''ses-'' @ session_label ex_args)
                                              [''dwi'', filename f])) (scenario_a_ref # [scenario_a_run2]))) \<and>
     out ''PhaseEncodingDirection'' = Some (JStr fped) \<and>
     out ''TotalReadoutTime'' = Some (JNum (1 / 10000000)) \<and>
     out ''EffectiveEchoSpacing'' = Some (JNum 0) \<and>
     (\<forall>k. k \<notin> {''IntendedFor'', ''PhaseEncodingDirection'', ''TotalReadoutTime'',
                ''EffectiveEchoSpacing''} \<longrightarrow> out k = ref k)"
    by (elim exE) (erule that)
  note r1 = r[THEN conjunct1]
  note r2 = r[THEN conjunct2, THEN conjunct1]
  note r3 = r[THEN conjunct2, THEN conjunct2, THEN conjunct1]
  note r4 = r[THEN conjunct2, THEN conjunct2, THEN conjunct2, THEN conjunct1]
  note r6 = r[THEN conjunct2, THEN conjunct2, THEN conjunct2, THEN conjunct2, THEN conjunct2,
              THEN conjunct1]
  note r7 = r[THEN conjunct2, THEN conjunct2, THEN conjunct2, THEN conjunct2, THEN conjunct2,
              THEN conjunct2, THEN conjunct1]
  note r8 = r[THEN conjunct2, THEN conjunct2, THEN conjunct2, THEN conjunct2, THEN conjunct2,
              THEN conjunct2, THEN conjunct2, THEN conjunct1]
  note r9 = r[THEN conjunct2, THEN conjunct2, THEN conjunct2, THEN conjunct2, THEN conjunct2,
              THEN conjunct2, THEN conjunct2, THEN conjunct2]
  from r2 scenario_a_process(2) have fped: "fped = ''j-''" by simp
  from r3 scenario_a_process(3) have label: "label = ''AP''" unfolding fped by simp
  have "''EchoTime'' \<notin> {''IntendedFor'', ''PhaseEncodingDirection'', ''TotalReadoutTime'',
                ''EffectiveEchoSpacing''}" by simp
  with r9[THEN spec, of "''EchoTime''"] have echo: "out ''EchoTime'' = ref ''EchoTime''"
    by (rule mp)
  from r4 have o: "open_json (files W')
          ''/data/sub-01/ses-1/fmap/sub-01_ses-1_acq-dir98synb0_dir-AP_epi.json'' = Inr out"
    unfolding label scenario_a_process(4) .
  from r6 have p: "out ''PhaseEncodingDirection'' = Some (JStr ''j-'')" unfolding fped .
  have "open_json (files W) (sidecar_of (path scenario_a_ref)) = Inr ref \<and>
     open_json (files W') ''/data/sub-01/ses-1/fmap/sub-01_ses-1_acq-dir98synb0_dir-AP_epi.json''
       = Inr out \<and>
     out ''PhaseEncodingDirection'' = Some (JStr ''j-'') \<and>
     out ''TotalReadoutTime'' = Some (JNum (1 / 10000000)) \<and>
     out ''EffectiveEchoSpacing'' = Some (JNum 0) \<and>
     out ''EchoTime'' = ref ''EchoTime''"
    using r1 o p r7 r8 echo by (intro conjI)
  then show ?thesis unfolding W_def W'_def by (intro exI)
qed

section \<open>The name of the field map: properties\<close>

lemma str_replace_no_dot:
  "CHR ''.'' \<notin> set xs \<Longrightarrow>
   str_replace ''.nii.gz'' ''.json'' (xs @ ys) = xs @ str_replace ''.nii.gz'' ''.json'' ys"
  by (induction xs) auto

lemma str_replace_epi:
  "str_replace ''.nii.gz'' ''.json'' ''_epi.nii.gz'' = ''_epi.json''"
  by simp

lemma fmap_file_name_parts:
  "fmap_file_name A grp label =
     ''sub-'' @ participant_label A @ ''_ses-'' @ session_label A @ ''_acq-''
     @ (if grp = ''noacq'' then [] else grp) @ ''synb0_dir-'' @ label @ ''_epi.nii.gz''"
  by (simp add: fmap_file_name_def)

lemma fmap_sidecar_name:
  assumes "CHR ''.'' \<notin> set (participant_label A) \<union> set (session_label A) \<union> set grp \<union> set label"
  shows "str_replace ''.nii.gz'' ''.json'' (fmap_file_name A grp label) =
     ''sub-'' @ participant_label A @ ''_ses-'' @ session_label A @ ''_acq-''
     @ (if grp = ''noacq'' then [] else grp) @ ''synb0_dir-'' @ label @ ''_epi.json''"
proof -
  define pre where "pre = ''sub-'' @ participant_label A @ ''_ses-'' @ session_label A @ ''_acq-''
     @ (if grp = ''noacq'' then [] else grp) @ ''synb0_dir-'' @ label"
  have nodot: "CHR ''.'' \<notin> set pre" using assms by (auto simp: pre_def)
  have "fmap_file_name A grp label = pre @ ''_epi.nii.gz''"
    by (simp add: fmap_file_name_parts pre_def)
  then have "str_replace ''.nii.gz'' ''.json'' (fmap_file_name A grp label) = pre @ ''_epi.json''"
    using str_replace_no_dot[OF nodot, of "''_epi.nii.gz''"] str_replace_epi by simp
  then show ?thesis by (simp add: pre_def)
qed

text \<open>
  Claim C8. The field map is named
  \<^verbatim>\<open>sub-<P>_ses-<S>_acq-<group>synb0_dir-<LABEL>_epi.nii.gz\<close>, with nothing for
  \<^verbatim>\<open><group>\<close> when the group is \<^verbatim>\<open>noacq\<close>, and its sidecar the same with \<^verbatim>\<open>.json\<close>
  when the labels contain no dot. In scenario A there is one group, \<^verbatim>\<open>dir98\<close>; the run
  ends normally, the volume is at
  \<^verbatim>\<open>fmap/sub-01_ses-1_acq-dir98synb0_dir-AP_epi.nii.gz\<close> and the sidecar beside it has the
  direction \<^verbatim>\<open>j-\<close>.
\<close>

theorem fmap_file_name_pattern:
  "fmap_file_name A grp label =
     ''sub-'' @ participant_label A @ ''_ses-'' @ session_label A @ ''_acq-''
     @ (if grp = ''noacq'' then [] else grp) @ ''synb0_dir-'' @ label @ ''_epi.nii.gz'' \<and>
   (CHR ''.'' \<notin> set (participant_label A) \<union> set (session_label A) \<union> set grp \<union> set label \<longrightarrow>
      str_replace ''.nii.gz'' ''.json'' (fmap_file_name A grp label) =
        ''sub-'' @ participant_label A @ ''_ses-'' @ session_label A @ ''_acq-''
        @ (if grp = ''noacq'' then [] else grp) @ ''synb0_dir-'' @ label @ ''_epi.json'') \<and>
   dwi_groups ex_args scenario_a_dwis = Inr [(''dir98'', scenario_a_dwis)] \<and>
   fmap_phase_encode_dir ''j'' = Inr ''j-'' \<and> fmap_phase_encode_label ''j-'' = Inr ''AP'' \<and>
   fmap_file_name ex_args ''dir98'' ''AP'' = ''sub-01_ses-1_acq-dir98synb0_dir-AP_epi.nii.gz'' \<and>
   fst (main scenario_a_env ex_args (ex_world (scenario_files (Some (JNum (1 / 20)))))) = Inr () \<and>
   other_content (files scenario_a_end)
     ''/data/sub-01/ses-1/fmap/sub-01_ses-1_acq-dir98synb0_dir-AP_epi.nii.gz'' = Some ''b0_u'' \<and>
   sidecar_field (files scenario_a_end)
     ''/data/sub-01/ses-1/fmap/sub-01_ses-1_acq-dir98synb0_dir-AP_epi.json''
     ''PhaseEncodingDirection'' = Inr (Some (JStr ''j-''))"
proof -
  have "fmap_phase_encode_label ''j-'' = Inr ''AP''"
    by (simp add: fmap_phase_encode_label_def phase_encode_labels_def)
  moreover have "fmap_file_name ex_args ''dir98'' ''AP'' = ''sub-01_ses-1_acq-dir98synb0_dir-AP_epi.nii.gz''"
    by (simp add: fmap_file_name_def ex_args_def)
  ultimately show ?thesis
    using fmap_file_name_parts[of A grp label] fmap_sidecar_name[of A grp label]
      scenario_a_groups scenario_a_process(2) scenario_a_main(1,2,3)
    by blast
qed

theorem fmap_file_name_pattern_witness:
  "fmap_file_name ex_args ''noacq'' ''LR'' = ''sub-01_ses-1_acq-synb0_dir-LR_epi.nii.gz'' \<and>
   str_replace ''.nii.gz'' ''.json'' (fmap_file_name ex_args ''noacq'' ''LR'')
     = ''sub-01_ses-1_acq-synb0_dir-LR_epi.json''"
proof -
  have nodot: "CHR ''.'' \<notin> set (participant_label ex_args) \<union> set (session_label ex_args)
                 \<union> set ''noacq'' \<union> set ''LR''"
    by (simp add: ex_args_def)
  from fmap_file_name_pattern[of ex_args "''noacq''" "''LR''"] nodot
  show ?thesis by (simp add: ex_args_def)
qed

section \<open>The brain mask: properties\<close>






lemma t2_mask_rule:
  "\<not> sources0_names t2_mask_files ''/data/sub-01/ses-1/anat'' ''sub-01_ses-1_T1w.nii.gz''
       ''sub-01_ses-1_acq-t2_mask.json''"
  "sources0_names t2_mask_files ''/data/sub-01/ses-1/anat'' ''sub-01_ses-1_T1w.nii.gz''
       ''sub-01_ses-1_desc-brain_mask.json''"
  by code_simp+


end
